theory Spec2Isabelle
  imports Complex_Main
begin

section \<open>Floating-point values as the loaders see them\<close>

text \<open>
  The dust module computes with numpy double-precision values.  They are modelled by
  the type \<open>npfloat\<close>: a finite value carries a real number, and the three special
  values of IEEE arithmetic (the two infinities and not-a-number) are separate
  constructors.  Arithmetic on finite values is exact real arithmetic: rounding,
  overflow and the sign of zero are not modelled.  The special values follow numpy,
  which never raises on division by zero or on an invalid operation but returns an
  infinity or NaN.
\<close>

datatype npfloat = Fin real | PInf | MInf | NaN

fun np_isnan :: "npfloat \<Rightarrow> bool" where
  "np_isnan NaN = True"
| "np_isnan _ = False"

fun np_neg :: "npfloat \<Rightarrow> npfloat" where
  "np_neg (Fin a) = Fin (- a)"
| "np_neg PInf = MInf"
| "np_neg MInf = PInf"
| "np_neg NaN = NaN"

fun np_add :: "npfloat \<Rightarrow> npfloat \<Rightarrow> npfloat" where
  "np_add NaN _ = NaN"
| "np_add _ NaN = NaN"
| "np_add (Fin a) (Fin b) = Fin (a + b)"
| "np_add PInf MInf = NaN"
| "np_add MInf PInf = NaN"
| "np_add PInf _ = PInf"
| "np_add MInf _ = MInf"
| "np_add (Fin a) y = y"

text \<open>The sign of a value that is not NaN: \<open>-1\<close>, \<open>0\<close> or \<open>1\<close>.\<close>

fun np_sign :: "npfloat \<Rightarrow> int" where
  "np_sign (Fin a) = (if a < 0 then - 1 else if a = 0 then 0 else 1)"
| "np_sign PInf = 1"
| "np_sign MInf = - 1"
| "np_sign NaN = 0"

definition np_inf :: "int \<Rightarrow> npfloat" where
  "np_inf s = (if s = 0 then NaN else if 0 < s then PInf else MInf)"

fun np_mul :: "npfloat \<Rightarrow> npfloat \<Rightarrow> npfloat" where
  "np_mul NaN _ = NaN"
| "np_mul _ NaN = NaN"
| "np_mul (Fin a) (Fin b) = Fin (a * b)"
| "np_mul x y = np_inf (np_sign x * np_sign y)"

fun np_div :: "npfloat \<Rightarrow> npfloat \<Rightarrow> npfloat" where
  "np_div NaN _ = NaN"
| "np_div _ NaN = NaN"
| "np_div (Fin a) (Fin b) = (if b = 0 then np_inf (np_sign (Fin a)) else Fin (a / b))"
| "np_div (Fin a) _ = Fin 0"
| "np_div x (Fin b) = np_inf (np_sign x * (if b < 0 then - 1 else 1))"
| "np_div _ _ = NaN"

instantiation npfloat :: "{plus, minus, uminus, times, inverse}"
begin

definition plus_npfloat :: "npfloat \<Rightarrow> npfloat \<Rightarrow> npfloat" where
  "plus_npfloat x y = np_add x y"

definition minus_npfloat :: "npfloat \<Rightarrow> npfloat \<Rightarrow> npfloat" where
  "minus_npfloat x y = np_add x (np_neg y)"

definition uminus_npfloat :: "npfloat \<Rightarrow> npfloat" where
  "uminus_npfloat x = np_neg x"

definition times_npfloat :: "npfloat \<Rightarrow> npfloat \<Rightarrow> npfloat" where
  "times_npfloat x y = np_mul x y"

definition divide_npfloat :: "npfloat \<Rightarrow> npfloat \<Rightarrow> npfloat" where
  "divide_npfloat x y = np_div x y"

definition inverse_npfloat :: "npfloat \<Rightarrow> npfloat" where
  "inverse_npfloat x = np_div (Fin 1) x"

instance ..

end

text \<open>
  \<open>x ** 1.5\<close>: the power with the exponent of the phase function.  A negative base
  gives NaN (the exponent is not an integer), zero gives zero.
\<close>

fun np_pow_1_5 :: "npfloat \<Rightarrow> npfloat" where
  "np_pow_1_5 (Fin a) = (if a < 0 then NaN else Fin (a powr (3 / 2)))"
| "np_pow_1_5 PInf = PInf"
| "np_pow_1_5 MInf = PInf"
| "np_pow_1_5 NaN = NaN"

text \<open>\<open>x != y\<close> on floats: NaN differs from everything, itself included.\<close>

definition np_ne :: "npfloat \<Rightarrow> npfloat \<Rightarrow> bool" where
  "np_ne x y = (np_isnan x \<or> np_isnan y \<or> x \<noteq> y)"

text \<open>\<open>x < y\<close> on floats: false as soon as one side is NaN.\<close>

fun np_less :: "npfloat \<Rightarrow> npfloat \<Rightarrow> bool" where
  "np_less NaN _ = False"
| "np_less _ NaN = False"
| "np_less (Fin a) (Fin b) = (a < b)"
| "np_less MInf y = (y \<noteq> MInf)"
| "np_less x PInf = (x \<noteq> PInf)"
| "np_less _ _ = False"

text \<open>\<open>np.cos(np.radians(x))\<close>: NaN for an infinite or NaN argument.\<close>

fun np_cos_radians :: "npfloat \<Rightarrow> npfloat" where
  "np_cos_radians (Fin a) = Fin (cos (a * pi / 180))"
| "np_cos_radians _ = NaN"

section \<open>The Henyey-Greenstein phase function\<close>

text \<open>
  \<^verbatim>\<open>
  def henyey_greenstein(mu, g, p_lin_max):
      P1 = (1. - g * g) / (1. + g * g - 2. * g * mu) ** 1.5
      P2 = - p_lin_max * P1 * (1. - mu * mu) / (1. + mu * mu)
      P3 = P1 * 2. * mu / (1. + mu * mu)
      P4 = 0.
      return P1, P2, P3, P4
  \<close>
  The operators associate as in Python: \<open>**\<close> binds tighter than the unary minus and
  than \<open>/\<close>, products and quotients associate to the left.
\<close>

definition henyey_greenstein ::
  "npfloat \<Rightarrow> npfloat \<Rightarrow> npfloat \<Rightarrow> npfloat \<times> npfloat \<times> npfloat \<times> npfloat" where
  "henyey_greenstein mu g p_lin_max =
     (let P1 = (Fin 1 - g * g) / np_pow_1_5 (Fin 1 + g * g - Fin 2 * g * mu);
          P2 = - p_lin_max * P1 * (Fin 1 - mu * mu) / (Fin 1 + mu * mu);
          P3 = P1 * Fin 2 * mu / (Fin 1 + mu * mu);
          P4 = Fin 0
      in (P1, P2, P3, P4))"

text \<open>The four components of the returned tuple.\<close>

definition hg_P1 :: "npfloat \<times> npfloat \<times> npfloat \<times> npfloat \<Rightarrow> npfloat" where
  "hg_P1 r = fst r"

definition hg_P2 :: "npfloat \<times> npfloat \<times> npfloat \<times> npfloat \<Rightarrow> npfloat" where
  "hg_P2 r = fst (snd r)"

definition hg_P3 :: "npfloat \<times> npfloat \<times> npfloat \<times> npfloat \<Rightarrow> npfloat" where
  "hg_P3 r = fst (snd (snd r))"


section \<open>Errors and dynamically typed values\<close>

text \<open>
  Every exception the modelled code can raise is a value of \<open>error\<close>.  A constructor
  (which yields no object when it raises) returns \<open>error + 'a\<close>; a method that mutates
  its object returns the raised exception, if any, together with the object as the
  method left it, because assignments made before the \<open>raise\<close> persist.
\<close>

datatype error =
    Exception string
  | ValueError
  | TypeError
  | IndexError
  | KeyError
  | IOError
  | AttributeError

text \<open>The Python values that are stored as header keywords and plain attributes.\<close>

datatype pyval = PyNone | PyInt int | PyFloat npfloat | PyStr string

text \<open>\<open>v != 1\<close> for such a value: an integer and a float compare by value.\<close>

fun py_ne_1 :: "pyval \<Rightarrow> bool" where
  "py_ne_1 (PyInt i) = (i \<noteq> 1)"
| "py_ne_1 (PyFloat x) = np_ne x (Fin 1)"
| "py_ne_1 _ = True"

text \<open>The truth value of \<open>if v:\<close>.\<close>

fun py_truthy :: "pyval \<Rightarrow> bool" where
  "py_truthy PyNone = False"
| "py_truthy (PyInt i) = (i \<noteq> 0)"
| "py_truthy (PyFloat x) = np_ne x (Fin 0)"
| "py_truthy (PyStr s) = (s \<noteq> [])"

section \<open>The optical-property table and the dust model\<close>

text \<open>
  The table of class \<open>OpticalProperties\<close>: the frequency grid, the grid of scattering
  cosines, albedo and opacity per frequency, and the four matrices as lists of rows
  (one row per frequency, one column per cosine).
\<close>

record optical_properties =
  op_nu :: "npfloat list"
  op_mu :: "npfloat list"
  op_albedo :: "npfloat list"
  op_chi :: "npfloat list"
  op_P1 :: "npfloat list list"
  op_P2 :: "npfloat list list"
  op_P3 :: "npfloat list list"
  op_P4 :: "npfloat list list"

text \<open>
  Modelled from the spec: the class \<open>OpticalProperties\<close> (module
  \<open>hyperion.dust.optical_properties\<close>) is not among the sources.  A new table holds no
  data, and "initialize scattering matrix" allocates the four matrices zero-filled with
  shape \<open>(n_wav, n_mu)\<close>, the lengths of \<open>nu\<close> and \<open>mu\<close>.
\<close>

definition OpticalProperties_new :: optical_properties where
  "OpticalProperties_new =
     \<lparr>op_nu = [], op_mu = [], op_albedo = [], op_chi = [],
      op_P1 = [], op_P2 = [], op_P3 = [], op_P4 = []\<rparr>"

definition np_zeros2 :: "nat \<Rightarrow> nat \<Rightarrow> npfloat list list" where
  "np_zeros2 n m = replicate n (replicate m (Fin 0))"

definition initialize_scattering_matrix :: "optical_properties \<Rightarrow> optical_properties" where
  "initialize_scattering_matrix op =
     (let n_wav = length (op_nu op); n_mu = length (op_mu op)
      in op\<lparr>op_P1 := np_zeros2 n_wav n_mu, op_P2 := np_zeros2 n_wav n_mu,
             op_P3 := np_zeros2 n_wav n_mu, op_P4 := np_zeros2 n_wav n_mu\<rparr>)"

text \<open>
  The container of the table-set library (\<open>atpy.TableSet\<close>): header keywords and the
  tables added to it, whose content belongs to the collaborating classes.
\<close>

record 't table_set =
  ts_keywords :: "string \<rightharpoonup> pyval"
  ts_tables :: "'t list"

definition TableSet_new :: "'t table_set" where
  "TableSet_new = \<lparr>ts_keywords = Map.empty, ts_tables = []\<rparr>"

definition add_keyword :: "string \<Rightarrow> pyval \<Rightarrow> 't table_set \<Rightarrow> 't table_set" where
  "add_keyword k v ts = ts\<lparr>ts_keywords := (ts_keywords ts)(k \<mapsto> v)\<rparr>"

text \<open>
  The argument of \<open>read\<close> and \<open>write\<close> designates a file: either by a value of type
  \<open>str\<close>, or by a value of another type (a \<open>unicode\<close> path, for instance), which
  \<open>read\<close> hands to the table-set library unchecked.
\<close>

datatype path_arg = StrPath string | OtherPath string

fun path_of :: "path_arg \<Rightarrow> string" where
  "path_of (StrPath p) = p"
| "path_of (OtherPath p) = p"

fun is_str :: "path_arg \<Rightarrow> bool" where
  "is_str (StrPath p) = True"
| "is_str (OtherPath p) = False"

text \<open>
  The file system maps a path to the container stored there; files that are not
  containers are not modelled.  The warnings issued so far are part of the world too.
\<close>

record 't world =
  files :: "string \<rightharpoonup> 't table_set"
  warnings :: "string list"

text \<open>Class \<open>SphericalDust\<close>.\<close>

record ('em, 'mo) spherical_dust =
  filename :: "path_arg option"
  md5 :: pyval
  optical_properties :: optical_properties
  emissivities :: 'em
  mean_opacities :: 'mo
  sublimation_mode :: string
  sublimation_energy :: pyval

text \<open>
  The collaborators that are outside the sources: the classes \<open>Emissivities\<close> and
  \<open>MeanOpacities\<close> with their \<open>set\<close> flag and computations, the methods that store
  a table in a container and load it back, the speed of light \<open>c\<close> of
  \<open>hyperion.util.constants\<close>, the version string of the package, and the log-log
  interpolation \<open>interp1d_fast_loglog(x, y, xval)\<close> of \<open>hyperion.util.interpolate\<close>,
  which may raise.  They are
  parameters of the model.  A method that fills a container either raises or returns
  the container; a method that mutates its object returns the exception, if any, and
  the object.
\<close>

record ('t, 'em, 'mo) collaborators =
  const_c :: npfloat
  hyperion_version :: string
  Emissivities_new :: 'em
  MeanOpacities_new :: 'mo
  em_set :: "'em \<Rightarrow> bool"
  em_set_lte :: "optical_properties \<Rightarrow> 'em \<Rightarrow> error option \<times> 'em"
  mo_set :: "'mo \<Rightarrow> bool"
  mo_compute :: "'em \<Rightarrow> optical_properties \<Rightarrow> 'mo \<Rightarrow> error option \<times> 'mo"
  op_to_table_set :: "optical_properties \<Rightarrow> 't table_set \<Rightarrow> error + 't table_set"
  mo_to_table_set :: "'mo \<Rightarrow> 't table_set \<Rightarrow> error + 't table_set"
  em_to_table_set :: "'em \<Rightarrow> 't table_set \<Rightarrow> error + 't table_set"
  op_from_table_set :: "'t table_set \<Rightarrow> optical_properties \<Rightarrow> error option \<times> optical_properties"
  mo_from_table_set :: "'t table_set \<Rightarrow> 'mo \<Rightarrow> error option \<times> 'mo"
  em_from_table_set :: "'t table_set \<Rightarrow> 'em \<Rightarrow> error option \<times> 'em"
  interp1d_fast_loglog :: "npfloat list \<Rightarrow> npfloat list \<Rightarrow> npfloat list \<Rightarrow> error + npfloat list"

text \<open>
  \<^verbatim>\<open>
  def set_sublimation_specific_energy(self, mode, specific_energy=0.):
      if mode not in ['no', 'fast', 'slow', 'cap']:
          raise Exception("mode should be one of no/fast/slow/cap")
      if mode != 'no' and specific_energy is None:
          raise Exception("Need to specify a sublimation specific_energy")
      self.sublimation_mode = mode
      self.sublimation_energy = specific_energy
  \<close>
\<close>

definition set_sublimation_specific_energy ::
  "string \<Rightarrow> pyval \<Rightarrow> ('em, 'mo) spherical_dust \<Rightarrow> error option \<times> ('em, 'mo) spherical_dust" where
  "set_sublimation_specific_energy mode specific_energy self =
     (if mode \<notin> set [''no'', ''fast'', ''slow'', ''cap'']
      then (Some (Exception ''mode should be one of no/fast/slow/cap''), self)
      else if mode \<noteq> ''no'' \<and> specific_energy = PyNone
      then (Some (Exception ''Need to specify a sublimation specific_energy''), self)
      else (None, self\<lparr>sublimation_mode := mode, sublimation_energy := specific_energy\<rparr>))"

text \<open>
  \<^verbatim>\<open>
  def _write_dust_sublimation(self, table_set):
      table_set.add_keyword('sublimation_mode', self.sublimation_mode)
      if self.sublimation_mode in ['slow', 'fast', 'cap']:
          table_set.add_keyword('sublimation_specific_energy', self.sublimation_energy)
  \<close>
\<close>

definition write_dust_sublimation ::
  "('em, 'mo) spherical_dust \<Rightarrow> 't table_set \<Rightarrow> 't table_set" where
  "write_dust_sublimation self table_set =
     (let ts1 = add_keyword ''sublimation_mode'' (PyStr (sublimation_mode self)) table_set
      in if sublimation_mode self \<in> set [''slow'', ''fast'', ''cap'']
         then add_keyword ''sublimation_specific_energy'' (sublimation_energy self) ts1
         else ts1)"

text \<open>
  Method \<open>write\<close> (\<open>write\<close> being a keyword of the prover, the two methods carry the
  name of their class).  The emissivities and the mean opacities are computed first when
  they are not set (with a warning for the former); then the container is filled with
  the keywords \<open>version\<close>, \<open>type\<close>, \<open>python_version\<close> and, when \<open>self.md5\<close> is
  true, \<open>asciimd5\<close>, with the tables of the three collaborators and with the
  sublimation keywords; it is stored under the file name, which becomes
  \<open>self.filename\<close>.  Storing the container is taken to succeed.
\<close>

definition SphericalDust_write ::
  "('t, 'em, 'mo) collaborators \<Rightarrow> path_arg \<Rightarrow> bool \<Rightarrow> ('em, 'mo) spherical_dust \<Rightarrow> 't world
     \<Rightarrow> error option \<times> ('em, 'mo) spherical_dust \<times> 't world" where
  "SphericalDust_write env fname compression self w =
     (let w1 = (if \<not> em_set env (emissivities self)
                then w\<lparr>warnings := warnings w @ [''Computing emissivities assuming LTE'']\<rparr>
                else w);
          r1 = (if \<not> em_set env (emissivities self)
                then em_set_lte env (optical_properties self) (emissivities self)
                else (None, emissivities self));
          self1 = self\<lparr>emissivities := snd r1\<rparr>
      in case fst r1 of Some e \<Rightarrow> (Some e, self1, w1) | None \<Rightarrow>
      (let r2 = (if \<not> mo_set env (mean_opacities self1)
                 then mo_compute env (emissivities self1) (optical_properties self1)
                        (mean_opacities self1)
                 else (None, mean_opacities self1));
           self2 = self1\<lparr>mean_opacities := snd r2\<rparr>
       in case fst r2 of Some e \<Rightarrow> (Some e, self2, w1) | None \<Rightarrow>
       (let ts0 = add_keyword ''python_version'' (PyStr (hyperion_version env))
                    (add_keyword ''type'' (PyInt 1)
                      (add_keyword ''version'' (PyInt 1) TableSet_new));
            ts1 = (if py_truthy (md5 self2) then add_keyword ''asciimd5'' (md5 self2) ts0
                   else ts0)
        in case op_to_table_set env (optical_properties self2) ts1 of
             Inl e \<Rightarrow> (Some e, self2, w1)
           | Inr ts2 \<Rightarrow>
          (case mo_to_table_set env (mean_opacities self2) ts2 of
             Inl e \<Rightarrow> (Some e, self2, w1)
           | Inr ts3 \<Rightarrow>
          (case em_to_table_set env (emissivities self2) ts3 of
             Inl e \<Rightarrow> (Some e, self2, w1)
           | Inr ts4 \<Rightarrow>
              (None, self2\<lparr>filename := Some fname\<rparr>,
               w1\<lparr>files := (files w1)(path_of fname \<mapsto> write_dust_sublimation self2 ts4)\<rparr>))))))"

text \<open>
  \<^verbatim>\<open>
  def read(self, filename):
      if type(filename) is str:
          if not os.path.exists(filename):
              raise Exception("File not found: %s" % filename)
          self.filename = filename
      ts = atpy.TableSet(filename, verbose=False, type='hdf5')
      if ts.keywords['version'] != 1:
          raise Exception("Version should be 1")
      if ts.keywords['type'] != 1:
          raise Exception("Type should be 1")
      if 'asciimd5' in ts.keywords:
          self.md5 = ts.keywords['asciimd5']
      else:
          self.md5 = None
      self.optical_properties.from_table_set(ts)
      self.mean_opacities.from_table_set(ts)
      self.emissivities.from_table_set(ts)
  \<close>
  Opening a file that does not exist raises \<open>IOError\<close>; a keyword that is missing
  raises \<open>KeyError\<close>.
\<close>

definition read_tables ::
  "('t, 'em, 'mo) collaborators \<Rightarrow> 't table_set \<Rightarrow> ('em, 'mo) spherical_dust
     \<Rightarrow> error option \<times> ('em, 'mo) spherical_dust" where
  "read_tables env ts self =
     (let r1 = op_from_table_set env ts (optical_properties self);
          self1 = self\<lparr>optical_properties := snd r1\<rparr>
      in case fst r1 of Some e \<Rightarrow> (Some e, self1) | None \<Rightarrow>
      (let r2 = mo_from_table_set env ts (mean_opacities self1);
           self2 = self1\<lparr>mean_opacities := snd r2\<rparr>
       in case fst r2 of Some e \<Rightarrow> (Some e, self2) | None \<Rightarrow>
       (let r3 = em_from_table_set env ts (emissivities self2)
        in (fst r3, self2\<lparr>emissivities := snd r3\<rparr>))))"

definition SphericalDust_read ::
  "('t, 'em, 'mo) collaborators \<Rightarrow> (string \<rightharpoonup> 't table_set) \<Rightarrow> path_arg
     \<Rightarrow> ('em, 'mo) spherical_dust \<Rightarrow> error option \<times> ('em, 'mo) spherical_dust" where
  "SphericalDust_read env fs fname self =
     (if is_str fname \<and> fs (path_of fname) = None
      then (Some (Exception (''File not found: '' @ path_of fname)), self)
      else
       (let self1 = (if is_str fname then self\<lparr>filename := Some fname\<rparr> else self)
        in case fs (path_of fname) of
             None \<Rightarrow> (Some IOError, self1)
           | Some ts \<Rightarrow>
              (case ts_keywords ts ''version'' of
                 None \<Rightarrow> (Some KeyError, self1)
               | Some version \<Rightarrow>
                  if py_ne_1 version then (Some (Exception ''Version should be 1''), self1)
                  else
                   (case ts_keywords ts ''type'' of
                      None \<Rightarrow> (Some KeyError, self1)
                    | Some type \<Rightarrow>
                       if py_ne_1 type then (Some (Exception ''Type should be 1''), self1)
                       else
                        (let self2 =
                               (case ts_keywords ts ''asciimd5'' of
                                  Some v \<Rightarrow> self1\<lparr>md5 := v\<rparr>
                                | None \<Rightarrow> self1\<lparr>md5 := PyNone\<rparr>)
                         in read_tables env ts self2)))))"

text \<open>
  \<^verbatim>\<open>
  def __init__(self, *args):
      self.filename = None
      self.md5 = None
      self.optical_properties = OpticalProperties()
      self.emissivities = Emissivities()
      self.mean_opacities = MeanOpacities()
      self.set_sublimation_specific_energy('no', 0.)
      self._freeze()
      if len(args) == 0:
          pass
      elif len(args) == 1:
          self.read(args[0])
      else:
          raise Exception("SphericalDust cannot take more than one argument")
  \<close>
  \<open>SphericalDust_base\<close> is the object before the arguments are looked at, which is
  also the result of the call \<open>SphericalDust.__init__(self)\<close> of the loaders.
\<close>

definition SphericalDust_base ::
  "('t, 'em, 'mo) collaborators \<Rightarrow> ('em, 'mo) spherical_dust" where
  "SphericalDust_base env =
     snd (set_sublimation_specific_energy ''no'' (PyFloat (Fin 0))
       \<lparr>filename = None, md5 = PyNone, optical_properties = OpticalProperties_new,
        emissivities = Emissivities_new env, mean_opacities = MeanOpacities_new env,
        sublimation_mode = [], sublimation_energy = PyNone\<rparr>)"

definition SphericalDust_init ::
  "('t, 'em, 'mo) collaborators \<Rightarrow> (string \<rightharpoonup> 't table_set) \<Rightarrow> path_arg list
     \<Rightarrow> error + ('em, 'mo) spherical_dust" where
  "SphericalDust_init env fs args =
     (let self = SphericalDust_base env
      in case args of
           [] \<Rightarrow> Inr self
         | [a] \<Rightarrow> (case SphericalDust_read env fs a self of
                      (Some e, self') \<Rightarrow> Inl e
                    | (None, self') \<Rightarrow> Inr self')
         | _ \<Rightarrow> Inl (Exception ''SphericalDust cannot take more than one argument''))"

section \<open>Array operations of the loaders\<close>

text \<open>\<open>np.linspace(start, stop, n)\<close>.\<close>

definition linspace :: "real \<Rightarrow> real \<Rightarrow> nat \<Rightarrow> npfloat list" where
  "linspace start stop n =
     map (\<lambda>i. Fin (start + real i * ((stop - start) / real (n - 1)))) [0..<n]"

text \<open>
  Columns of a matrix: \<open>P[:, i]\<close>, \<open>P[:, i] = col\<close> for an array \<open>col\<close> with one
  entry per row, \<open>P[:, i] = v\<close> for a scalar, and \<open>P[j, i] = v\<close>.
\<close>

definition get_column :: "npfloat list list \<Rightarrow> nat \<Rightarrow> npfloat list" where
  "get_column P i = map (\<lambda>row. row ! i) P"

definition set_column :: "npfloat list list \<Rightarrow> nat \<Rightarrow> npfloat list \<Rightarrow> npfloat list list" where
  "set_column P i col = map (\<lambda>(row, v). row[i := v]) (zip P col)"

definition set_column_scalar :: "npfloat list list \<Rightarrow> nat \<Rightarrow> npfloat \<Rightarrow> npfloat list list" where
  "set_column_scalar P i v = map (\<lambda>row. row[i := v]) P"

definition set_elem :: "npfloat list list \<Rightarrow> nat \<Rightarrow> nat \<Rightarrow> npfloat \<Rightarrow> npfloat list list" where
  "set_elem P j i v = P[j := (P ! j)[i := v]]"

text \<open>
  Boolean masks: \<open>xs[mask]\<close> selects the entries where the mask is true, and
  \<open>values[mask] = r\<close> stores the entries of \<open>r\<close>, in order, at those places.  numpy
  accepts an \<open>r\<close> with as many entries as the mask has true places, or with a single
  entry, which it repeats; otherwise it raises \<open>ValueError\<close>.
\<close>

definition select :: "bool list \<Rightarrow> 'a list \<Rightarrow> 'a list" where
  "select msk xs = map snd (filter fst (zip msk xs))"

fun mask_fill :: "'a list \<Rightarrow> bool list \<Rightarrow> 'a list \<Rightarrow> 'a list" where
  "mask_fill (v # vs) (m # ms) r =
     (if m then (case r of x # xs \<Rightarrow> x # mask_fill vs ms xs | [] \<Rightarrow> v # mask_fill vs ms [])
      else v # mask_fill vs ms r)"
| "mask_fill vs _ _ = vs"

definition mask_assign :: "npfloat list \<Rightarrow> bool list \<Rightarrow> npfloat list \<Rightarrow> error + npfloat list" where
  "mask_assign values msk r =
     (let n = length (filter id msk)
      in if length r = n then Inr (mask_fill values msk r)
         else case r of
                [x] \<Rightarrow> Inr (mask_fill values msk (replicate n x))
              | _ \<Rightarrow> Inl ValueError)"

text \<open>
  \<open>a / b\<close> on two one-dimensional results of \<open>np.loadtxt\<close>.  A file of a single row
  is loaded as a scalar, which is combined with every entry of the other array; two
  arrays need the same length.
\<close>

definition broadcast_div :: "npfloat list \<Rightarrow> npfloat list \<Rightarrow> error + npfloat list" where
  "broadcast_div a b =
     (case a of
        [x] \<Rightarrow> Inr (map (\<lambda>y. x / y) b)
      | _ \<Rightarrow> if length a = length b then Inr (map (\<lambda>(x, y). x / y) (zip a b))
             else Inl ValueError)"

section \<open>The isotropic loader\<close>

text \<open>
  \<^verbatim>\<open>
  def __init__(self, wav, chi, albedo):
      SphericalDust.__init__(self)
      self.optical_properties.mu = np.linspace(-1., 1., 2)
      self.optical_properties.nu = c / wav * 1.e4
      self.optical_properties.albedo = albedo
      self.optical_properties.chi = chi
      self.optical_properties.initialize_scattering_matrix()
      self.optical_properties.P1[:, :] = 1.
      self.optical_properties.P2[:, :] = 0.
      self.optical_properties.P3[:, :] = 1.
      self.optical_properties.P4[:, :] = 0.
  \<close>
  The three arguments are one-dimensional arrays.
\<close>

definition fill_matrix :: "npfloat list list \<Rightarrow> npfloat \<Rightarrow> npfloat list list" where
  "fill_matrix P v = map (map (\<lambda>_. v)) P"

definition IsotropicSphericalDust ::
  "('t, 'em, 'mo) collaborators \<Rightarrow> npfloat list \<Rightarrow> npfloat list \<Rightarrow> npfloat list
     \<Rightarrow> ('em, 'mo) spherical_dust" where
  "IsotropicSphericalDust env wav chi_arr albedo_arr =
     (let self = SphericalDust_base env;
          op1 = (optical_properties self)
                  \<lparr>op_mu := linspace (- 1) 1 2,
                   op_nu := map (\<lambda>w. const_c env / w * Fin 10000) wav,
                   op_albedo := albedo_arr,
                   op_chi := chi_arr\<rparr>;
          op2 = initialize_scattering_matrix op1
      in self\<lparr>optical_properties :=
                 op2\<lparr>op_P1 := fill_matrix (op_P1 op2) (Fin 1),
                     op_P2 := fill_matrix (op_P2 op2) (Fin 0),
                     op_P3 := fill_matrix (op_P3 op2) (Fin 1),
                     op_P4 := fill_matrix (op_P4 op2) (Fin 0)\<rparr>\<rparr>)"

section \<open>The loader of bulk-parameter tables\<close>

text \<open>
  The file of \<open>SimpleSphericalDust\<close> as the loader sees it: the rows that
  \<open>np.loadtxt\<close> parses from its first six columns, and the hexadecimal MD5 digest of
  its bytes.
\<close>

record dustfile_row =
  col_wav :: npfloat
  col_c_ext :: npfloat
  col_c_sca :: npfloat
  col_chi :: npfloat
  col_g :: npfloat
  col_p_lin_max :: npfloat

record simple_file =
  sf_rows :: "dustfile_row list"
  sf_md5 :: string

text \<open>
  \<open>henyey_greenstein(mu, g, p_lin_max)\<close> called with a scalar \<open>mu\<close> and two arrays of
  the same length: the arithmetic acts element by element, and \<open>P4\<close> stays the
  scalar \<open>0.\<close>
\<close>

definition henyey_greenstein_arrays ::
  "npfloat \<Rightarrow> npfloat list \<Rightarrow> npfloat list
     \<Rightarrow> npfloat list \<times> npfloat list \<times> npfloat list \<times> npfloat" where
  "henyey_greenstein_arrays mu_i gs ps =
     (map (\<lambda>(g, p). hg_P1 (henyey_greenstein mu_i g p)) (zip gs ps),
      map (\<lambda>(g, p). hg_P2 (henyey_greenstein mu_i g p)) (zip gs ps),
      map (\<lambda>(g, p). hg_P3 (henyey_greenstein mu_i g p)) (zip gs ps),
      Fin 0)"

text \<open>
  The body of the loop over the columns:
  \<^verbatim>\<open>
  for i in range(n_mu):
      self.optical_properties.P1[:, i], \
      self.optical_properties.P2[:, i], \
      self.optical_properties.P3[:, i], \
      self.optical_properties.P4[:, i] = henyey_greenstein(self.optical_properties.mu[i],
                                             dustfile['g'], dustfile['p_lin_max'])
  \<close>
\<close>

definition fill_column :: "dustfile_row list \<Rightarrow> nat \<Rightarrow> optical_properties \<Rightarrow> optical_properties" where
  "fill_column dustfile i op =
     (case henyey_greenstein_arrays (op_mu op ! i) (map col_g dustfile)
             (map col_p_lin_max dustfile) of
        (c1, c2, c3, c4) \<Rightarrow>
          op\<lparr>op_P1 := set_column (op_P1 op) i c1,
             op_P2 := set_column (op_P2 op) i c2,
             op_P3 := set_column (op_P3 op) i c3,
             op_P4 := set_column_scalar (op_P4 op) i c4\<rparr>)"

text \<open>
  \<^verbatim>\<open>
  def __init__(self, filename):
      SphericalDust.__init__(self)
      n_mu = 100
      self.optical_properties.mu = np.linspace(-1., 1., n_mu)
      dustfile = np.loadtxt(filename, dtype=[...], usecols=[0, 1, 2, 3, 4, 5])
      self.optical_properties.nu = c / dustfile['wav'] * 1.e4
      self.optical_properties.albedo = dustfile['c_sca'] / dustfile['c_ext']
      self.optical_properties.chi = dustfile['chi']
      self.md5 = hashlib.md5(open(filename, 'rb').read()).hexdigest()
      self.optical_properties.initialize_scattering_matrix()
      for i in range(n_mu):
          ...
  \<close>
  \<open>np.loadtxt\<close> returns a one-dimensional array only for a table of two or more
  rows.  A table without rows is rejected by \<open>np.loadtxt\<close>, and the single row of a
  one-row table is returned as a scalar record, whose columns have no length for the
  allocation of the matrices: with fewer than two rows the model raises.
\<close>

definition SimpleSphericalDust ::
  "('t, 'em, 'mo) collaborators \<Rightarrow> simple_file \<Rightarrow> error + ('em, 'mo) spherical_dust" where
  "SimpleSphericalDust env file =
     (let self = SphericalDust_base env;
          n_mu = 100;
          op1 = (optical_properties self)\<lparr>op_mu := linspace (- 1) 1 n_mu\<rparr>;
          dustfile = sf_rows file
      in if dustfile = [] then Inl IOError
         else if length dustfile = 1 then Inl TypeError
         else
          (let op2 = op1\<lparr>op_nu := map (\<lambda>r. const_c env / col_wav r * Fin 10000) dustfile,
                         op_albedo := map (\<lambda>r. col_c_sca r / col_c_ext r) dustfile,
                         op_chi := map col_chi dustfile\<rparr>;
               self1 = self\<lparr>md5 := PyStr (sf_md5 file)\<rparr>;
               op3 = initialize_scattering_matrix op2;
               op4 = fold (fill_column dustfile) [0..<n_mu] op3
           in Inr (self1\<lparr>optical_properties := op4\<rparr>)))"

section \<open>The loader of the output of the Mie code\<close>

text \<open>
  A line of a text file is the list of its whitespace-separated fields; a field is
  \<open>Some v\<close> when \<open>float\<close> accepts it with value \<open>v\<close>, and \<open>None\<close> otherwise.  An
  empty line has no field, and so has the empty string that \<open>readline\<close> returns at
  the end of the file.
\<close>

type_synonym line = "npfloat option list"

fun readline :: "line list \<Rightarrow> line \<times> line list" where
  "readline [] = ([], [])"
| "readline (l # ls) = (l, ls)"

text \<open>\<open>float(line)\<close>: the line must consist of one field that is a number.\<close>

definition float_of_line :: "line \<Rightarrow> error + npfloat" where
  "float_of_line l = (case l of [Some v] \<Rightarrow> Inr v | _ \<Rightarrow> Inl ValueError)"

text \<open>\<open>float(line.split()[k])\<close>.\<close>

definition float_of_field :: "line \<Rightarrow> nat \<Rightarrow> error + npfloat" where
  "float_of_field l k =
     (if k < length l then (case l ! k of Some v \<Rightarrow> Inr v | None \<Rightarrow> Inl ValueError)
      else Inl IndexError)"

text \<open>
  The files of a model: the rows of \<open>model.alb\<close> (columns 0 and 1, wavelength and
  albedo) and column 1 of \<open>model.k_abs\<close> as \<open>np.loadtxt\<close> parses them, and the lines
  of the four files of matrix elements.
\<close>

record miex_model =
  alb :: "(npfloat \<times> npfloat) list"
  k_abs :: "npfloat list"
  f11 :: "line list"
  f12 :: "line list"
  f33 :: "line list"
  f34 :: "line list"

text \<open>
  The repair of NaN values, which the loader applies to \<open>chi\<close>, to \<open>albedo\<close> and to
  every column of the four matrices with the same statements:
  \<^verbatim>\<open>
  if np.any(np.isnan(values)):
      warnings.warn("NaN values found inside MieX %s file - interpolating" % quantity)
      invalid = np.isnan(values)
      values[invalid] = interp1d_fast_loglog(wav[~invalid], values[~invalid], wav[invalid])
      if np.any(np.isnan(values)):
          raise Exception("Did not manage to fix NaN values in MieX %s" % quantity)
  \<close>
  The result is the repaired array and the warnings issued.
\<close>

definition repair_nan ::
  "('t, 'em, 'mo) collaborators \<Rightarrow> string \<Rightarrow> npfloat list \<Rightarrow> npfloat list
     \<Rightarrow> error + npfloat list \<times> string list" where
  "repair_nan env quantity wav values =
     (if list_ex np_isnan values then
        (let invalid = map np_isnan values
         in case interp1d_fast_loglog env (select (map Not invalid) wav)
                   (select (map Not invalid) values) (select invalid wav) of
              Inl e \<Rightarrow> Inl e
            | Inr r \<Rightarrow>
               (case mask_assign values invalid r of
                  Inl e \<Rightarrow> Inl e
                | Inr values' \<Rightarrow>
                   if list_ex np_isnan values'
                   then Inl (Exception (''Did not manage to fix NaN values in MieX '' @ quantity))
                   else Inr (values',
                     [''NaN values found inside MieX '' @ quantity @ '' file - interpolating''])))
      else Inr (values, []))"

definition repair_column ::
  "('t, 'em, 'mo) collaborators \<Rightarrow> string \<Rightarrow> npfloat list \<Rightarrow> nat \<Rightarrow> npfloat list list
     \<Rightarrow> error + npfloat list list \<times> string list" where
  "repair_column env quantity wav i P =
     (case repair_nan env quantity wav (get_column P i) of
        Inl e \<Rightarrow> Inl e
      | Inr (col, ws) \<Rightarrow> Inr (set_column P i col, ws))"

text \<open>
  \<^verbatim>\<open>
  for i in range(n_mu):
      for quantity in ['P1', 'P2', 'P3', 'P4']:
          values = self.optical_properties.__dict__[quantity]
          if np.any(np.isnan(values[:, i])):
              ...
  \<close>
\<close>

fun repair_columns ::
  "('t, 'em, 'mo) collaborators \<Rightarrow> npfloat list \<Rightarrow> nat list
     \<Rightarrow> optical_properties \<times> string list \<Rightarrow> error + optical_properties \<times> string list" where
  "repair_columns env wav [] s = Inr s"
| "repair_columns env wav (i # is) (op, ws) =
     (case repair_column env ''P1'' wav i (op_P1 op) of Inl e \<Rightarrow> Inl e | Inr (p1, w1) \<Rightarrow>
      case repair_column env ''P2'' wav i (op_P2 op) of Inl e \<Rightarrow> Inl e | Inr (p2, w2) \<Rightarrow>
      case repair_column env ''P3'' wav i (op_P3 op) of Inl e \<Rightarrow> Inl e | Inr (p3, w3) \<Rightarrow>
      case repair_column env ''P4'' wav i (op_P4 op) of Inl e \<Rightarrow> Inl e | Inr (p4, w4) \<Rightarrow>
        repair_columns env wav is
          (op\<lparr>op_P1 := p1, op_P2 := p2, op_P3 := p3, op_P4 := p4\<rparr>, ws @ w1 @ w2 @ w3 @ w4))"

text \<open>
  Reading the grid of cosines: the first two lines of \<open>model.f11\<close> are skipped,
  \<^verbatim>\<open>
  for i in range(n_mu):
      self.optical_properties.mu[i] = np.cos(np.radians(float(f11.readline().split()[0])))
  \<close>
\<close>

fun read_mu :: "nat list \<Rightarrow> line list \<Rightarrow> npfloat list \<Rightarrow> error + npfloat list" where
  "read_mu [] h mu_arr = Inr mu_arr"
| "read_mu (i # is) h mu_arr =
     (case float_of_field (fst (readline h)) 0 of
        Inl e \<Rightarrow> Inl e
      | Inr theta \<Rightarrow> read_mu is (snd (readline h)) (mu_arr[i := np_cos_radians theta]))"

text \<open>The four open files, each as the lines still to be read.\<close>

record miex_handles =
  h11 :: "line list"
  h12 :: "line list"
  h33 :: "line list"
  h34 :: "line list"

text \<open>
  \<^verbatim>\<open>
  if float(f11.readline()) != wav[j]:
      raise Exception("Incorrect wavelength in f11")
  \<close>
  The result is the file after the line.
\<close>

definition check_wavelength :: "string \<Rightarrow> line list \<Rightarrow> npfloat \<Rightarrow> error + line list" where
  "check_wavelength name h w =
     (case float_of_line (fst (readline h)) of
        Inl e \<Rightarrow> Inl e
      | Inr x \<Rightarrow> if np_ne x w then Inl (Exception (''Incorrect wavelength in '' @ name))
                else Inr (snd (readline h)))"

text \<open>
  \<^verbatim>\<open>
  for i in range(n_mu):
      self.optical_properties.P1[j, i] = float(f11.readline().split()[1])
      self.optical_properties.P2[j, i] = float(f12.readline().split()[1])
      self.optical_properties.P3[j, i] = float(f33.readline().split()[1])
      self.optical_properties.P4[j, i] = float(f34.readline().split()[1])
  \<close>
\<close>

fun read_elements ::
  "nat \<Rightarrow> nat list \<Rightarrow> miex_handles \<times> optical_properties
     \<Rightarrow> error + miex_handles \<times> optical_properties" where
  "read_elements j [] s = Inr s"
| "read_elements j (i # is) (h, op) =
     (case float_of_field (fst (readline (h11 h))) 1 of Inl e \<Rightarrow> Inl e | Inr v1 \<Rightarrow>
      case float_of_field (fst (readline (h12 h))) 1 of Inl e \<Rightarrow> Inl e | Inr v2 \<Rightarrow>
      case float_of_field (fst (readline (h33 h))) 1 of Inl e \<Rightarrow> Inl e | Inr v3 \<Rightarrow>
      case float_of_field (fst (readline (h34 h))) 1 of Inl e \<Rightarrow> Inl e | Inr v4 \<Rightarrow>
        read_elements j is
          (\<lparr>h11 = snd (readline (h11 h)), h12 = snd (readline (h12 h)),
            h33 = snd (readline (h33 h)), h34 = snd (readline (h34 h))\<rparr>,
           op\<lparr>op_P1 := set_elem (op_P1 op) j i v1, op_P2 := set_elem (op_P2 op) j i v2,
              op_P3 := set_elem (op_P3 op) j i v3, op_P4 := set_elem (op_P4 op) j i v4\<rparr>))"

text \<open>
  \<^verbatim>\<open>
  for j in range(n_wav):
      if float(f11.readline()) != wav[j]:
          raise Exception("Incorrect wavelength in f11")
      if float(f12.readline()) != wav[j]:
          raise Exception("Incorrect wavelength in f12")
      if float(f33.readline()) != wav[j]:
          raise Exception("Incorrect wavelength in f33")
      if float(f34.readline()) != wav[j]:
          raise Exception("Incorrect wavelength in f34")
      for i in range(n_mu):
          ...
  \<close>
\<close>

fun read_records ::
  "npfloat list \<Rightarrow> nat \<Rightarrow> nat list \<Rightarrow> miex_handles \<times> optical_properties
     \<Rightarrow> error + miex_handles \<times> optical_properties" where
  "read_records wav n_mu [] s = Inr s"
| "read_records wav n_mu (j # js) (h, op) =
     (case check_wavelength ''f11'' (h11 h) (wav ! j) of Inl e \<Rightarrow> Inl e | Inr r11 \<Rightarrow>
      case check_wavelength ''f12'' (h12 h) (wav ! j) of Inl e \<Rightarrow> Inl e | Inr r12 \<Rightarrow>
      case check_wavelength ''f33'' (h33 h) (wav ! j) of Inl e \<Rightarrow> Inl e | Inr r33 \<Rightarrow>
      case check_wavelength ''f34'' (h34 h) (wav ! j) of Inl e \<Rightarrow> Inl e | Inr r34 \<Rightarrow>
      case read_elements j [0..<n_mu] (\<lparr>h11 = r11, h12 = r12, h33 = r33, h34 = r34\<rparr>, op) of
        Inl e \<Rightarrow> Inl e
      | Inr s' \<Rightarrow> read_records wav n_mu js s')"

text \<open>
  The constructor of \<open>MieXDust\<close>.  \<open>np.loadtxt\<close> returns a one-dimensional array
  only for two or more rows: with an empty \<open>model.alb\<close> the division by \<open>n_wav\<close>
  fails, and with a single row \<open>len(wav)\<close> does, so that the loader never returns for
  fewer than two wavelengths; the model raises at once.  \<open>n_mu\<close> is the integer
  quotient of the number of lines of \<open>model.f11\<close> by \<open>n_wav\<close>, minus one, and
  \<open>np.zeros\<close> rejects a negative length.  The result is the model and the warnings
  issued.
\<close>

definition MieXDust ::
  "('t, 'em, 'mo) collaborators \<Rightarrow> miex_model
     \<Rightarrow> error + ('em, 'mo) spherical_dust \<times> string list" where
  "MieXDust env model =
     (let self = SphericalDust_base env;
          wav = map fst (alb model);
          albedo0 = map snd (alb model);
          kappa = k_abs model
      in if length wav < 2 then Inl TypeError
         else
      case broadcast_div kappa (map (\<lambda>a. Fin 1 - a) albedo0) of Inl e \<Rightarrow> Inl e | Inr chi0 \<Rightarrow>
      case repair_nan env ''chi'' wav chi0 of Inl e \<Rightarrow> Inl e | Inr (chi1, w1) \<Rightarrow>
      case repair_nan env ''albedo'' wav albedo0 of Inl e \<Rightarrow> Inl e | Inr (albedo1, w2) \<Rightarrow>
        (let n_wav = length wav;
             n_mu = int (length (f11 model)) div int n_wav - 1
         in if n_mu < 0 then Inl ValueError
            else
         (let op1 = initialize_scattering_matrix
                      ((optical_properties self)
                         \<lparr>op_albedo := albedo1, op_chi := chi1,
                          op_nu := map (\<lambda>w. const_c env / w * Fin 10000) wav,
                          op_mu := replicate (nat n_mu) (Fin 0)\<rparr>)
          in case read_mu [0..<nat n_mu] (snd (readline (snd (readline (f11 model)))))
                    (op_mu op1) of
               Inl e \<Rightarrow> Inl e
             | Inr mu_arr \<Rightarrow>
            (case read_records wav (nat n_mu) [0..<n_wav]
                    (\<lparr>h11 = snd (readline (f11 model)), h12 = snd (readline (f12 model)),
                      h33 = snd (readline (f33 model)), h34 = snd (readline (f34 model))\<rparr>,
                     op1\<lparr>op_mu := mu_arr\<rparr>) of
               Inl e \<Rightarrow> Inl e
             | Inr (h, op2) \<Rightarrow>
              (case repair_columns env wav [0..<nat n_mu] (op2, w1 @ w2) of
                 Inl e \<Rightarrow> Inl e
               | Inr (op3, ws) \<Rightarrow> Inr (self\<lparr>optical_properties := op3\<rparr>, ws))))))"

text \<open>
  An array or a matrix without NaN, that is, one on which the test
  \<open>np.any(np.isnan(values))\<close> is false; a matrix of shape \<open>(n, m)\<close>; and line \<open>k\<close>
  of a file (counted from 0) as \<open>readline\<close> returns it once \<open>k\<close> lines have been
  read.
\<close>

definition no_nan :: "npfloat list \<Rightarrow> bool" where
  "no_nan values = (\<not> list_ex np_isnan values)"

definition no_nan_matrix :: "npfloat list list \<Rightarrow> bool" where
  "no_nan_matrix P = list_all no_nan P"

definition shape_is :: "nat \<Rightarrow> nat \<Rightarrow> npfloat list list \<Rightarrow> bool" where
  "shape_is n m P = (length P = n \<and> list_all (\<lambda>row. length row = m) P)"

definition line_at :: "line list \<Rightarrow> nat \<Rightarrow> line" where
  "line_at f k = fst (readline (drop k f))"

section \<open>The filter\<close>

text \<open>
  The values handed to the setters of class \<open>Filter\<close>: \<open>None\<close>, a string, an array
  with a unit (an astropy \<open>Quantity\<close>; a plain array counts as dimensionless), or any
  other object.  Of the unit only the physical type matters.
\<close>

datatype physical_type =
  PT_frequency | PT_length | PT_energy | PT_dimensionless | PT_other

datatype ndarray = Arr0 npfloat | Arr1 "npfloat list" | Arr2 "npfloat list list"

fun shape :: "ndarray \<Rightarrow> nat list" where
  "shape (Arr0 v) = []"
| "shape (Arr1 vs) = [length vs]"
| "shape (Arr2 rows) = [length rows, (case rows of [] \<Rightarrow> 0 | r # _ \<Rightarrow> length r)]"

definition ndim :: "ndarray \<Rightarrow> nat" where
  "ndim a = length (shape a)"

fun elements :: "ndarray \<Rightarrow> npfloat list" where
  "elements (Arr0 v) = [v]"
| "elements (Arr1 vs) = vs"
| "elements (Arr2 rows) = concat rows"

datatype fval = FNone | FStr string | FQuantity ndarray physical_type | FOther

text \<open>\<open>len(v)\<close>.\<close>

fun py_len :: "fval \<Rightarrow> error + nat" where
  "py_len (FStr s) = Inr (length s)"
| "py_len (FQuantity (Arr1 vs) t) = Inr (length vs)"
| "py_len (FQuantity (Arr2 rows) t) = Inr (length rows)"
| "py_len _ = Inl TypeError"

text \<open>
  Modelled from the spec: \<open>validate_array\<close> (module \<open>hyperion.util.validator\<close>) is not
  among the sources.  The spec calls it an array validation with unit check: the
  spectral coordinates are positive values whose physical dimension must be one of
  frequency, length and energy, "validated, not merely typed", and the transmission is
  validated against the length of the spectral coordinates.  The model checks what the
  keyword arguments of the two calls name: the physical type, the number of dimensions,
  the shape when one is given, and the domain, \<open>'positive'\<close> excluding negative and
  \<open>'strictly-positive'\<close> excluding negative and zero entries.  It returns the value.
\<close>

datatype value_domain = Positive | StrictlyPositive

definition np_le :: "npfloat \<Rightarrow> npfloat \<Rightarrow> bool" where
  "np_le x y = (np_less x y \<or> (\<not> np_isnan x \<and> x = y))"

definition validate_array ::
  "string \<Rightarrow> fval \<Rightarrow> value_domain \<Rightarrow> nat \<Rightarrow> nat list option \<Rightarrow> physical_type list \<Rightarrow> error + fval" where
  "validate_array name value dmn nd shp physical_types =
     (case value of
        FQuantity a t \<Rightarrow>
          if t \<notin> set physical_types then Inl TypeError
          else if ndim a \<noteq> nd then Inl TypeError
          else if (case shp of None \<Rightarrow> False | Some s \<Rightarrow> shape a \<noteq> s) then Inl ValueError
          else if (case dmn of
                     Positive \<Rightarrow> list_ex (\<lambda>v. np_less v (Fin 0)) (elements a)
                   | StrictlyPositive \<Rightarrow> list_ex (\<lambda>v. np_le v (Fin 0)) (elements a))
               then Inl ValueError
          else Inr value
      | _ \<Rightarrow> Inl TypeError)"

text \<open>
  An object of class \<open>Filter\<close>: each private attribute is \<open>None\<close> as long as no
  assignment has created it, and reading it then raises \<open>AttributeError\<close>.
\<close>

record filter_obj =
  attr_name :: "fval option"
  attr_spectral_coord :: "fval option"
  attr_transmission :: "fval option"
  attr_beta :: "int option"
  attr_alpha :: "fval option"
  attr_central_spectral_coord :: "fval option"

definition get_attr :: "'a option \<Rightarrow> error + 'a" where
  "get_attr a = (case a of None \<Rightarrow> Inl AttributeError | Some v \<Rightarrow> Inr v)"

definition get_name :: "filter_obj \<Rightarrow> error + fval" where
  "get_name self = get_attr (attr_name self)"

text \<open>
  \<^verbatim>\<open>
  @name.setter
  def name(self, value):
      if value is None or isinstance(value, six.string_types):
          self._name = value
      else:
          raise TypeError("name should be given as a string")
  \<close>
\<close>

fun is_string :: "fval \<Rightarrow> bool" where
  "is_string (FStr s) = True"
| "is_string _ = False"

definition set_name :: "fval \<Rightarrow> filter_obj \<Rightarrow> error option \<times> filter_obj" where
  "set_name value self =
     (if value = FNone \<or> is_string value then (None, self\<lparr>attr_name := Some value\<rparr>)
      else (Some TypeError, self))"

definition get_spectral_coord :: "filter_obj \<Rightarrow> error + fval" where
  "get_spectral_coord self = get_attr (attr_spectral_coord self)"

text \<open>
  \<^verbatim>\<open>
  @spectral_coord.setter
  def spectral_coord(self, value):
      if value is None:
          self._spectral_coord = None
      else:
          self._spectral_coord = validate_array('spectral_coord', value,
                                     domain='strictly-positive', ndim=1,
                                     physical_type=('frequency', 'length', 'energy'))
  \<close>
\<close>

definition set_spectral_coord :: "fval \<Rightarrow> filter_obj \<Rightarrow> error option \<times> filter_obj" where
  "set_spectral_coord value self =
     (if value = FNone then (None, self\<lparr>attr_spectral_coord := Some FNone\<rparr>)
      else case validate_array ''spectral_coord'' value StrictlyPositive 1 None
                  [PT_frequency, PT_length, PT_energy] of
             Inl e \<Rightarrow> (Some e, self)
           | Inr v \<Rightarrow> (None, self\<lparr>attr_spectral_coord := Some v\<rparr>))"

definition get_transmission :: "filter_obj \<Rightarrow> error + fval" where
  "get_transmission self = get_attr (attr_transmission self)"

text \<open>
  \<^verbatim>\<open>
  @transmission.setter
  def transmission(self, value):
      if value is None:
          self._transmission = None
      else:
          self._transmission = validate_array('r', value, domain='positive', ndim=1,
              shape=None if self.spectral_coord is None else (len(self.spectral_coord),),
              physical_type=('dimensionless'))
  \<close>
\<close>

definition set_transmission :: "fval \<Rightarrow> filter_obj \<Rightarrow> error option \<times> filter_obj" where
  "set_transmission value self =
     (if value = FNone then (None, self\<lparr>attr_transmission := Some FNone\<rparr>)
      else case get_spectral_coord self of
             Inl e \<Rightarrow> (Some e, self)
           | Inr sc \<Rightarrow>
              (case (if sc = FNone then Inr None
                     else case py_len sc of Inl e \<Rightarrow> Inl e | Inr n \<Rightarrow> Inr (Some [n])) of
                 Inl e \<Rightarrow> (Some e, self)
               | Inr shp \<Rightarrow>
                  (case validate_array ''r'' value Positive 1 shp [PT_dimensionless] of
                     Inl e \<Rightarrow> (Some e, self)
                   | Inr v \<Rightarrow> (None, self\<lparr>attr_transmission := Some v\<rparr>))))"

text \<open>
  \<^verbatim>\<open>
  def __init__(self, name=None, spectral_coord=None, transmission=None):
      self.name = name
      self.spectral_coord = spectral_coord
      self.transmission = transmission
  \<close>
\<close>

definition Filter_init :: "fval \<Rightarrow> fval \<Rightarrow> fval \<Rightarrow> error + filter_obj" where
  "Filter_init name spectral_coord transmission =
     (let self = \<lparr>attr_name = None, attr_spectral_coord = None, attr_transmission = None,
                  attr_beta = None, attr_alpha = None, attr_central_spectral_coord = None\<rparr>
      in case set_name name self of
           (Some e, self1) \<Rightarrow> Inl e
         | (None, self1) \<Rightarrow>
            (case set_spectral_coord spectral_coord self1 of
               (Some e, self2) \<Rightarrow> Inl e
             | (None, self2) \<Rightarrow>
                (case set_transmission transmission self2 of
                   (Some e, self3) \<Rightarrow> Inl e
                 | (None, self3) \<Rightarrow> Inr self3)))"

text \<open>
  \<^verbatim>\<open>
  @property
  def detector_type(self):
      return "energy" if self._beta == -1 else "photons"

  @detector_type.setter
  def detector_type(self, value):
      if value == 'energy':
          self._beta = -1
      elif value == 'photons':
          self._beta = 0
      else:
          raise ValueError("detector_type should be one of energy/photons")
  \<close>
\<close>

definition get_detector_type :: "filter_obj \<Rightarrow> error + string" where
  "get_detector_type self =
     (case get_attr (attr_beta self) of
        Inl e \<Rightarrow> Inl e
      | Inr beta \<Rightarrow> Inr (if beta = - 1 then ''energy'' else ''photons''))"

definition set_detector_type :: "fval \<Rightarrow> filter_obj \<Rightarrow> error option \<times> filter_obj" where
  "set_detector_type value self =
     (if value = FStr ''energy'' then (None, self\<lparr>attr_beta := Some (- 1)\<rparr>)
      else if value = FStr ''photons'' then (None, self\<lparr>attr_beta := Some 0\<rparr>)
      else (Some ValueError, self))"

definition get_alpha :: "filter_obj \<Rightarrow> error + fval" where
  "get_alpha self = get_attr (attr_alpha self)"

definition set_alpha :: "fval \<Rightarrow> filter_obj \<Rightarrow> error option \<times> filter_obj" where
  "set_alpha value self = (None, self\<lparr>attr_alpha := Some value\<rparr>)"







section \<open>A stand-in for the collaborators\<close>

text \<open>
  Where the development evaluates the model on concrete data, the collaborators are
  instantiated with the simplest ones that keep what they are given: the table of the
  optical properties is the table itself, stored first in the container and loaded
  back from there; emissivities and mean opacities consist of their \<open>set\<close> flag only,
  which computing and loading turn on; the interpolation returns the first valid sample
  for every requested abscissa, and NaN when there is none.
\<close>

definition reference_collaborators :: "(optical_properties, bool, bool) collaborators" where
  "reference_collaborators =
     \<lparr>const_c = Fin 29979245800,
      hyperion_version = ''0.8'',
      Emissivities_new = False,
      MeanOpacities_new = False,
      em_set = (\<lambda>em. em),
      em_set_lte = (\<lambda>op em. (None, True)),
      mo_set = (\<lambda>mo. mo),
      mo_compute = (\<lambda>em op mo. (None, True)),
      op_to_table_set = (\<lambda>op ts. Inr (ts\<lparr>ts_tables := ts_tables ts @ [op]\<rparr>)),
      mo_to_table_set = (\<lambda>mo ts. Inr ts),
      em_to_table_set = (\<lambda>em ts. Inr ts),
      op_from_table_set = (\<lambda>ts op. case ts_tables ts of [] \<Rightarrow> (Some KeyError, op)
                                                       | t # _ \<Rightarrow> (None, t)),
      mo_from_table_set = (\<lambda>ts mo. (None, True)),
      em_from_table_set = (\<lambda>ts em. (None, True)),
      interp1d_fast_loglog =
        (\<lambda>x y xval. case y of [] \<Rightarrow> Inr (map (\<lambda>_. NaN) xval)
                            | v # _ \<Rightarrow> Inr (map (\<lambda>_. v) xval))\<rparr>"

text \<open>
  An example of the files of a model of the Mie code: two wavelengths and two angles
  (0 and 180 degrees), the albedo missing at the second wavelength and one element of
  \<open>model.f11\<close> missing at the first.
\<close>

definition example_miex_model :: miex_model where
  "example_miex_model =
     \<lparr>alb = [(Fin 1, Fin (1 / 2)), (Fin 2, NaN)],
      k_abs = [Fin 1, Fin 1],
      f11 = [[], [Some (Fin 1)], [Some (Fin 0), Some (Fin 3)], [Some (Fin 180), Some NaN],
             [Some (Fin 2)], [Some (Fin 0), Some (Fin 4)], [Some (Fin 180), Some (Fin 5)]],
      f12 = [[], [Some (Fin 1)], [Some (Fin 0), Some (Fin 0)], [Some (Fin 180), Some (Fin 0)],
             [Some (Fin 2)], [Some (Fin 0), Some (Fin 0)], [Some (Fin 180), Some (Fin 0)]],
      f33 = [[], [Some (Fin 1)], [Some (Fin 0), Some (Fin 3)], [Some (Fin 180), Some (Fin 3)],
             [Some (Fin 2)], [Some (Fin 0), Some (Fin 4)], [Some (Fin 180), Some (Fin 5)]],
      f34 = [[], [Some (Fin 1)], [Some (Fin 0), Some (Fin 0)], [Some (Fin 180), Some (Fin 0)],
             [Some (Fin 2)], [Some (Fin 0), Some (Fin 0)], [Some (Fin 180), Some (Fin 0)]]\<rparr>"


definition empty_world :: "'t world" where
  "empty_world = \<lparr>files = Map.empty, warnings = []\<rparr>"

text \<open>
  The round trip: a model is written to a file, and a new model is constructed from
  that file, as by \<open>SphericalDust(filename)\<close>.
\<close>

definition write_then_read ::
  "('t, 'em, 'mo) collaborators \<Rightarrow> path_arg \<Rightarrow> ('em, 'mo) spherical_dust \<Rightarrow> 't world
     \<Rightarrow> error + ('em, 'mo) spherical_dust" where
  "write_then_read env fname self w =
     (case SphericalDust_write env fname True self w of
        (Some e, self', w') \<Rightarrow> Inl e
      | (None, self', w') \<Rightarrow> SphericalDust_init env (files w') [fname])"

section \<open>Verification\<close>

subsection \<open>The phase function\<close>


lemmas np_arith = plus_npfloat_def minus_npfloat_def uminus_npfloat_def times_npfloat_def
  divide_npfloat_def









subsection \<open>The filter\<close>

lemma set_name_beta: "attr_beta (snd (set_name v self)) = attr_beta self"
  by (simp add: set_name_def)

lemma set_spectral_coord_beta: "attr_beta (snd (set_spectral_coord v self)) = attr_beta self"
  by (simp add: set_spectral_coord_def split: sum.splits)

lemma set_transmission_beta: "attr_beta (snd (set_transmission v self)) = attr_beta self"
  by (simp add: set_transmission_def split: sum.splits)

lemma Filter_init_beta:
  assumes "Filter_init name sc tr = Inr self"
  shows "attr_beta self = None"
proof -
  let ?s0 = "\<lparr>attr_name = None, attr_spectral_coord = None, attr_transmission = None,
              attr_beta = None, attr_alpha = None, attr_central_spectral_coord = None\<rparr>"
  let ?s1 = "snd (set_name name ?s0)"
  let ?s2 = "snd (set_spectral_coord sc ?s1)"
  let ?s3 = "snd (set_transmission tr ?s2)"
  from assms have "self = ?s3"
    by (auto simp: Filter_init_def Let_def split: prod.splits option.splits)
  moreover have "attr_beta ?s3 = None"
    by (simp only: set_transmission_beta set_spectral_coord_beta set_name_beta) simp
  ultimately show ?thesis by simp
qed

text \<open>
  Claim C10.  A filter that has just been constructed has no detector type: reading
  the property raises \<open>AttributeError\<close>.  Assigning \<open>'energy'\<close> or \<open>'photons'\<close>
  succeeds and the property then reads as the assigned string; assigning any other
  value raises \<open>ValueError\<close> and leaves the object, the stored detector state
  included, as it was.
\<close>

theorem detector_type_set_get:
  "(Filter_init name sc tr = Inr self \<longrightarrow> get_detector_type self = Inl AttributeError)
   \<and> (v \<in> {''energy'', ''photons''} \<longrightarrow>
        fst (set_detector_type (FStr v) obj) = None
        \<and> get_detector_type (snd (set_detector_type (FStr v) obj)) = Inr v)
   \<and> (value \<noteq> FStr ''energy'' \<and> value \<noteq> FStr ''photons'' \<longrightarrow>
        set_detector_type value obj = (Some ValueError, obj))"
proof (intro conjI impI)
  assume "Filter_init name sc tr = Inr self"
  then have "attr_beta self = None" by (rule Filter_init_beta)
  then show "get_detector_type self = Inl AttributeError"
    by (simp add: get_detector_type_def get_attr_def)
next
  assume "v \<in> {''energy'', ''photons''}"
  then show "fst (set_detector_type (FStr v) obj) = None"
    by (auto simp: set_detector_type_def)
next
  assume "v \<in> {''energy'', ''photons''}"
  then show "get_detector_type (snd (set_detector_type (FStr v) obj)) = Inr v"
    by (auto simp: set_detector_type_def get_detector_type_def get_attr_def)
next
  assume "value \<noteq> FStr ''energy'' \<and> value \<noteq> FStr ''photons''"
  then show "set_detector_type value obj = (Some ValueError, obj)"
    by (simp add: set_detector_type_def)
qed

lemma Filter_init_None:
  "Filter_init FNone FNone FNone =
     Inr \<lparr>attr_name = Some FNone, attr_spectral_coord = Some FNone,
          attr_transmission = Some FNone, attr_beta = None, attr_alpha = None,
          attr_central_spectral_coord = None\<rparr>"
  by (simp add: Filter_init_def set_name_def set_spectral_coord_def set_transmission_def)

theorem detector_type_set_get_witness:
  "Filter_init FNone FNone FNone =
     Inr \<lparr>attr_name = Some FNone, attr_spectral_coord = Some FNone,
          attr_transmission = Some FNone, attr_beta = None, attr_alpha = None,
          attr_central_spectral_coord = None\<rparr>
   \<and> get_detector_type \<lparr>attr_name = Some FNone, attr_spectral_coord = Some FNone,
          attr_transmission = Some FNone, attr_beta = None, attr_alpha = None,
          attr_central_spectral_coord = None\<rparr> = Inl AttributeError
   \<and> ''photons'' \<in> {''energy'', ''photons''}
   \<and> get_detector_type (snd (set_detector_type (FStr ''photons'')
        \<lparr>attr_name = Some FNone, attr_spectral_coord = Some FNone,
          attr_transmission = Some FNone, attr_beta = None, attr_alpha = None,
          attr_central_spectral_coord = None\<rparr>)) = Inr ''photons''
   \<and> FStr ''flux'' \<noteq> FStr ''energy'' \<and> FStr ''flux'' \<noteq> FStr ''photons''
   \<and> set_detector_type (FStr ''flux'')
        \<lparr>attr_name = Some FNone, attr_spectral_coord = Some FNone,
          attr_transmission = Some FNone, attr_beta = Some (- 1), attr_alpha = None,
          attr_central_spectral_coord = None\<rparr> =
       (Some ValueError,
        \<lparr>attr_name = Some FNone, attr_spectral_coord = Some FNone,
          attr_transmission = Some FNone, attr_beta = Some (- 1), attr_alpha = None,
          attr_central_spectral_coord = None\<rparr>)"
  using Filter_init_None
    detector_type_set_get [of FNone FNone FNone
      "\<lparr>attr_name = Some FNone, attr_spectral_coord = Some FNone,
          attr_transmission = Some FNone, attr_beta = None, attr_alpha = None,
          attr_central_spectral_coord = None\<rparr>" "''photons''"
      "\<lparr>attr_name = Some FNone, attr_spectral_coord = Some FNone,
          attr_transmission = Some FNone, attr_beta = None, attr_alpha = None,
          attr_central_spectral_coord = None\<rparr>" "FStr ''flux''"]
    detector_type_set_get [of FNone FNone FNone
      "\<lparr>attr_name = Some FNone, attr_spectral_coord = Some FNone,
          attr_transmission = Some FNone, attr_beta = None, attr_alpha = None,
          attr_central_spectral_coord = None\<rparr>" "''photons''"
      "\<lparr>attr_name = Some FNone, attr_spectral_coord = Some FNone,
          attr_transmission = Some FNone, attr_beta = Some (- 1), attr_alpha = None,
          attr_central_spectral_coord = None\<rparr>" "FStr ''flux''"]
  by simp






subsection \<open>Reading and writing the dust model\<close>

lemma read_tables_keeps:
  "filename (snd (read_tables env ts self)) = filename self
   \<and> md5 (snd (read_tables env ts self)) = md5 self
   \<and> sublimation_mode (snd (read_tables env ts self)) = sublimation_mode self
   \<and> sublimation_energy (snd (read_tables env ts self)) = sublimation_energy self"
  by (simp add: read_tables_def Let_def split: option.splits)

lemma SphericalDust_read_keeps_sublimation:
  "sublimation_mode (snd (SphericalDust_read env fs fname self)) = sublimation_mode self
   \<and> sublimation_energy (snd (SphericalDust_read env fs fname self)) = sublimation_energy self"
  by (simp add: SphericalDust_read_def Let_def read_tables_keeps split: option.splits)

lemma SphericalDust_init_sublimation:
  assumes "SphericalDust_init env fs args = Inr self"
  shows "sublimation_mode self = ''no'' \<and> sublimation_energy self = PyFloat (Fin 0)"
proof -
  have base: "sublimation_mode (SphericalDust_base env) = ''no''
      \<and> sublimation_energy (SphericalDust_base env) = PyFloat (Fin 0)"
    by (simp add: SphericalDust_base_def set_sublimation_specific_energy_def)
  show ?thesis
  proof (cases args)
    case Nil
    with assms base show ?thesis by (simp add: SphericalDust_init_def)
  next
    case (Cons a rest)
    show ?thesis
    proof (cases rest)
      case Nil
      with Cons assms have "self = snd (SphericalDust_read env fs a (SphericalDust_base env))"
        by (auto simp: SphericalDust_init_def Let_def split: prod.splits option.splits)
      with base SphericalDust_read_keeps_sublimation [of env fs a "SphericalDust_base env"]
      show ?thesis by simp
    next
      case (Cons b rest')
      with \<open>args = a # rest\<close> assms show ?thesis by (simp add: SphericalDust_init_def)
    qed
  qed
qed

lemma SphericalDust_write_file:
  assumes "SphericalDust_write env fname c self w = (None, self', w')"
  shows "\<exists>ts. files w' (path_of fname) = Some ts
          \<and> ts_keywords ts ''sublimation_mode'' = Some (PyStr (sublimation_mode self))
          \<and> (sublimation_mode self \<in> {''slow'', ''fast'', ''cap''} \<longrightarrow>
               ts_keywords ts ''sublimation_specific_energy'' = Some (sublimation_energy self))"
  using assms
  by (auto simp: SphericalDust_write_def Let_def write_dust_sublimation_def add_keyword_def
      split: option.splits sum.splits if_splits)

text \<open>
  Claim C1 fails on the code.  A populated model whose sublimation mode has been set to
  \<open>'fast'\<close> with threshold 1500 is written and a new model is constructed from the
  file: with collaborators that store and load their tables faithfully the optical
  properties come back as they were, but the new model has sublimation mode \<open>'no'\<close>
  and threshold 0, because \<open>read\<close> never looks at the sublimation keywords that
  \<open>write\<close> has stored.
\<close>

theorem write_read_loses_sublimation:
  "sublimation_mode
     (snd (set_sublimation_specific_energy ''fast'' (PyFloat (Fin 1500))
        (IsotropicSphericalDust reference_collaborators [Fin 1, Fin 2] [Fin 10, Fin 20]
           [Fin (1 / 2), Fin (1 / 4)]))) = ''fast''
   \<and> Inr ''no'' =
      map_sum id sublimation_mode
       (write_then_read reference_collaborators (StrPath ''dust.hdf5'')
         (snd (set_sublimation_specific_energy ''fast'' (PyFloat (Fin 1500))
           (IsotropicSphericalDust reference_collaborators [Fin 1, Fin 2] [Fin 10, Fin 20]
              [Fin (1 / 2), Fin (1 / 4)])))
         empty_world)
   \<and> Inr (PyFloat (Fin 0)) =
      map_sum id sublimation_energy
       (write_then_read reference_collaborators (StrPath ''dust.hdf5'')
         (snd (set_sublimation_specific_energy ''fast'' (PyFloat (Fin 1500))
           (IsotropicSphericalDust reference_collaborators [Fin 1, Fin 2] [Fin 10, Fin 20]
              [Fin (1 / 2), Fin (1 / 4)])))
         empty_world)
   \<and> Inr (optical_properties
        (IsotropicSphericalDust reference_collaborators [Fin 1, Fin 2] [Fin 10, Fin 20]
           [Fin (1 / 2), Fin (1 / 4)])) =
      map_sum id optical_properties
       (write_then_read reference_collaborators (StrPath ''dust.hdf5'')
         (snd (set_sublimation_specific_energy ''fast'' (PyFloat (Fin 1500))
           (IsotropicSphericalDust reference_collaborators [Fin 1, Fin 2] [Fin 10, Fin 20]
              [Fin (1 / 2), Fin (1 / 4)])))
         empty_world)"
  by (simp add: write_then_read_def SphericalDust_write_def SphericalDust_init_def
        SphericalDust_read_def read_tables_def SphericalDust_base_def
        set_sublimation_specific_energy_def IsotropicSphericalDust_def
        reference_collaborators_def empty_world_def write_dust_sublimation_def
        add_keyword_def TableSet_new_def Let_def)




subsection \<open>Columns of a matrix\<close>

lemma length_set_column:
  "length col = length P \<Longrightarrow> length (set_column P i col) = length P"
  by (simp add: set_column_def)

lemma nth_set_column:
  "length col = length P \<Longrightarrow> j < length P \<Longrightarrow> set_column P i col ! j = (P ! j)[i := col ! j]"
  by (simp add: set_column_def)

lemma length_set_column_scalar: "length (set_column_scalar P i v) = length P"
  by (simp add: set_column_scalar_def)

lemma nth_set_column_scalar:
  "j < length P \<Longrightarrow> set_column_scalar P i v ! j = (P ! j)[i := v]"
  by (simp add: set_column_scalar_def)

lemma set_column_scalar_eq:
  "set_column_scalar P i v = set_column P i (replicate (length P) v)"
  by (rule nth_equalityI) (simp_all add: length_set_column_scalar length_set_column
      nth_set_column_scalar nth_set_column)

text \<open>
  A loop that stores a column \<open>c i\<close> at every index \<open>i\<close> below \<open>k\<close> keeps the shape
  of the matrix and leaves \<open>c i ! j\<close> at row \<open>j\<close> of column \<open>i\<close>.
\<close>

lemma fold_set_column:
  assumes "\<And>i. length (c i) = length P"
  shows "length (fold (\<lambda>i Q. set_column Q i (c i)) [0..<k] P) = length P
    \<and> (\<forall>j<length P. length (fold (\<lambda>i Q. set_column Q i (c i)) [0..<k] P ! j) = length (P ! j))
    \<and> (\<forall>j<length P. \<forall>i<k. i < length (P ! j) \<longrightarrow>
          fold (\<lambda>i Q. set_column Q i (c i)) [0..<k] P ! j ! i = c i ! j)"
proof (induction k)
  case 0
  show ?case by simp
next
  case (Suc k)
  let ?Q = "fold (\<lambda>i Q. set_column Q i (c i)) [0..<k] P"
  have step: "fold (\<lambda>i Q. set_column Q i (c i)) [0..<Suc k] P = set_column ?Q k (c k)"
    by simp
  from Suc.IH have len: "length ?Q = length P"
    and rows: "\<And>j. j < length P \<Longrightarrow> length (?Q ! j) = length (P ! j)"
    and val: "\<And>j i. j < length P \<Longrightarrow> i < k \<Longrightarrow> i < length (P ! j) \<Longrightarrow> ?Q ! j ! i = c i ! j"
    by auto
  have ck: "length (c k) = length ?Q" using assms len by simp
  show ?case
  proof (intro conjI allI impI)
    show "length (fold (\<lambda>i Q. set_column Q i (c i)) [0..<Suc k] P) = length P"
      unfolding step using ck len by (simp add: length_set_column)
  next
    fix j assume j: "j < length P"
    then show "length (fold (\<lambda>i Q. set_column Q i (c i)) [0..<Suc k] P ! j) = length (P ! j)"
      unfolding step using ck len rows by (simp add: nth_set_column)
  next
    fix j i assume j: "j < length P" and i: "i < Suc k" and il: "i < length (P ! j)"
    have "set_column ?Q k (c k) ! j ! i = (?Q ! j)[k := c k ! j] ! i"
      using ck len j by (simp add: nth_set_column)
    also have "\<dots> = c i ! j"
    proof (cases "i = k")
      case True
      with il rows [OF j] show ?thesis by simp
    next
      case False
      with i have "i < k" by simp
      with False val [OF j _ il] show ?thesis by simp
    qed
    finally show "fold (\<lambda>i Q. set_column Q i (c i)) [0..<Suc k] P ! j ! i = c i ! j"
      unfolding step .
  qed
qed

subsection \<open>The loader of bulk-parameter tables\<close>

lemma henyey_greenstein_arrays_rows:
  "henyey_greenstein_arrays m (map col_g rows) (map col_p_lin_max rows) =
     (map (\<lambda>r. hg_P1 (henyey_greenstein m (col_g r) (col_p_lin_max r))) rows,
      map (\<lambda>r. hg_P2 (henyey_greenstein m (col_g r) (col_p_lin_max r))) rows,
      map (\<lambda>r. hg_P3 (henyey_greenstein m (col_g r) (col_p_lin_max r))) rows,
      Fin 0)"
  by (simp add: henyey_greenstein_arrays_def zip_map_map zip_same_conv_map comp_def)

lemma fill_column_fields:
  "op_mu (fill_column rows i op) = op_mu op"
  "op_nu (fill_column rows i op) = op_nu op"
  "op_albedo (fill_column rows i op) = op_albedo op"
  "op_chi (fill_column rows i op) = op_chi op"
  by (simp_all add: fill_column_def henyey_greenstein_arrays_rows)

lemma fold_fill_column_fields:
  "op_mu (fold (fill_column rows) xs op) = op_mu op"
  "op_nu (fold (fill_column rows) xs op) = op_nu op"
  "op_albedo (fold (fill_column rows) xs op) = op_albedo op"
  "op_chi (fold (fill_column rows) xs op) = op_chi op"
  by (induction xs arbitrary: op) (simp_all add: fill_column_fields)

lemma fold_fill_column_P:
  "op_P1 (fold (fill_column rows) xs op) =
     fold (\<lambda>i Q. set_column Q i
        (map (\<lambda>r. hg_P1 (henyey_greenstein (op_mu op ! i) (col_g r) (col_p_lin_max r))) rows))
      xs (op_P1 op)"
  "op_P2 (fold (fill_column rows) xs op) =
     fold (\<lambda>i Q. set_column Q i
        (map (\<lambda>r. hg_P2 (henyey_greenstein (op_mu op ! i) (col_g r) (col_p_lin_max r))) rows))
      xs (op_P2 op)"
  "op_P3 (fold (fill_column rows) xs op) =
     fold (\<lambda>i Q. set_column Q i
        (map (\<lambda>r. hg_P3 (henyey_greenstein (op_mu op ! i) (col_g r) (col_p_lin_max r))) rows))
      xs (op_P3 op)"
  "length (op_P4 op) = length rows \<Longrightarrow> op_P4 (fold (fill_column rows) xs op) =
     fold (\<lambda>i Q. set_column Q i (map (\<lambda>r. Fin 0) rows)) xs (op_P4 op)"
proof (induction xs arbitrary: op)
  case Nil
  {
    case 1 show ?case by simp
  next
    case 2 show ?case by simp
  next
    case 3 show ?case by simp
  next
    case 4 show ?case by simp
  }
next
  case (Cons x xs)
  {
    case 1
    show ?case
      by (simp add: Cons.IH(1) fill_column_fields)
         (simp add: fill_column_def henyey_greenstein_arrays_rows)
  next
    case 2
    show ?case
      by (simp add: Cons.IH(2) fill_column_fields)
         (simp add: fill_column_def henyey_greenstein_arrays_rows)
  next
    case 3
    show ?case
      by (simp add: Cons.IH(3) fill_column_fields)
         (simp add: fill_column_def henyey_greenstein_arrays_rows)
  next
    case 4
    have P4: "op_P4 (fill_column rows x op) = set_column (op_P4 op) x (map (\<lambda>r. Fin 0) rows)"
      using 4 by (simp add: fill_column_def henyey_greenstein_arrays_rows set_column_scalar_eq
          map_replicate_const)
    then have "length (op_P4 (fill_column rows x op)) = length rows"
      using 4 by (simp add: length_set_column)
    from Cons.IH(4) [OF this] P4 show ?case by simp
  }
qed

lemma nth_linspace:
  "i < n \<Longrightarrow> linspace a b n ! i = Fin (a + real i * ((b - a) / real (n - 1)))"
  by (simp add: linspace_def)

lemma length_linspace: "length (linspace a b n) = n"
  by (simp add: linspace_def)

lemma SimpleSphericalDust_Inr:
  assumes "SimpleSphericalDust env file = Inr self"
  shows "2 \<le> length (sf_rows file)"
    and "optical_properties self =
      fold (fill_column (sf_rows file)) [0..<100]
        (initialize_scattering_matrix
          ((optical_properties (SphericalDust_base env))
            \<lparr>op_mu := linspace (- 1) 1 100,
             op_nu := map (\<lambda>r. const_c env / col_wav r * Fin 10000) (sf_rows file),
             op_albedo := map (\<lambda>r. col_c_sca r / col_c_ext r) (sf_rows file),
             op_chi := map col_chi (sf_rows file)\<rparr>))"
proof -
  from assms have ne: "sf_rows file \<noteq> []" and n1: "length (sf_rows file) \<noteq> 1"
    by (auto simp: SimpleSphericalDust_def Let_def split: if_splits)
  then have "length (sf_rows file) \<noteq> 0" "length (sf_rows file) \<noteq> 1" by simp_all
  then show "2 \<le> length (sf_rows file)" by linarith
  from assms ne n1 show "optical_properties self =
      fold (fill_column (sf_rows file)) [0..<100]
        (initialize_scattering_matrix
          ((optical_properties (SphericalDust_base env))
            \<lparr>op_mu := linspace (- 1) 1 100,
             op_nu := map (\<lambda>r. const_c env / col_wav r * Fin 10000) (sf_rows file),
             op_albedo := map (\<lambda>r. col_c_sca r / col_c_ext r) (sf_rows file),
             op_chi := map col_chi (sf_rows file)\<rparr>))"
    by (auto simp: SimpleSphericalDust_def Let_def)
qed

lemma SimpleSphericalDust_returns:
  assumes "2 \<le> length (sf_rows file)"
  shows "\<exists>self. SimpleSphericalDust env file = Inr self"
proof -
  from assms have "sf_rows file \<noteq> []" "length (sf_rows file) \<noteq> 1" by auto
  then show ?thesis by (simp add: SimpleSphericalDust_def Let_def)
qed

lemma initialize_scattering_matrix_fields:
  "op_mu (initialize_scattering_matrix op) = op_mu op"
  "op_nu (initialize_scattering_matrix op) = op_nu op"
  "op_albedo (initialize_scattering_matrix op) = op_albedo op"
  "op_chi (initialize_scattering_matrix op) = op_chi op"
  "op_P1 (initialize_scattering_matrix op) = np_zeros2 (length (op_nu op)) (length (op_mu op))"
  "op_P2 (initialize_scattering_matrix op) = np_zeros2 (length (op_nu op)) (length (op_mu op))"
  "op_P3 (initialize_scattering_matrix op) = np_zeros2 (length (op_nu op)) (length (op_mu op))"
  "op_P4 (initialize_scattering_matrix op) = np_zeros2 (length (op_nu op)) (length (op_mu op))"
  by (simp_all add: initialize_scattering_matrix_def Let_def)

lemma np_zeros2_shape:
  "length (np_zeros2 n m) = n" "j < n \<Longrightarrow> length (np_zeros2 n m ! j) = m"
  by (simp_all add: np_zeros2_def)

lemma SimpleSphericalDust_albedo:
  assumes "SimpleSphericalDust env file = Inr self"
  shows "op_albedo (optical_properties self) = map (\<lambda>r. col_c_sca r / col_c_ext r) (sf_rows file)"
    and "op_chi (optical_properties self) = map col_chi (sf_rows file)"
    and "op_mu (optical_properties self) = linspace (- 1) 1 100"
  using SimpleSphericalDust_Inr(2) [OF assms]
  by (simp_all add: fold_fill_column_fields initialize_scattering_matrix_fields)

text \<open>
  Claim C7.  Whenever \<open>SimpleSphericalDust\<close> returns a model, its table has the grid
  \<open>mu\<close> of 100 evenly spaced cosines \<open>-1 + 2 i / 99\<close>, from \<open>-1\<close> to \<open>+1\<close>; its
  albedo is \<open>c_sca / c_ext\<close> and its \<open>chi\<close> the table's column \<open>chi\<close>, row by row;
  and the entries of column \<open>i\<close> of the four matrices at row \<open>j\<close> are the four values
  of \<open>henyey_greenstein\<close> at \<open>mu[i]\<close> and the \<open>g\<close> and \<open>p_lin_max\<close> of row \<open>j\<close>.
\<close>

theorem SimpleSphericalDust_table:
  assumes "SimpleSphericalDust env file = Inr self"
  shows "length (op_mu (optical_properties self)) = 100
     \<and> (\<forall>i<100. op_mu (optical_properties self) ! i = Fin (- 1 + real i * (2 / 99)))
     \<and> op_mu (optical_properties self) ! 0 = Fin (- 1)
     \<and> op_mu (optical_properties self) ! 99 = Fin 1
     \<and> op_albedo (optical_properties self) =
          map (\<lambda>r. col_c_sca r / col_c_ext r) (sf_rows file)
     \<and> op_chi (optical_properties self) = map col_chi (sf_rows file)
     \<and> (\<forall>i<100. \<forall>j<length (sf_rows file).
          (op_P1 (optical_properties self) ! j ! i, op_P2 (optical_properties self) ! j ! i,
           op_P3 (optical_properties self) ! j ! i, op_P4 (optical_properties self) ! j ! i) =
          henyey_greenstein (op_mu (optical_properties self) ! i)
            (col_g (sf_rows file ! j)) (col_p_lin_max (sf_rows file ! j)))"
proof -
  let ?rows = "sf_rows file"
  let ?n = "length ?rows"
  let ?mu = "linspace (- 1) 1 100"
  let ?op0 = "initialize_scattering_matrix
          ((optical_properties (SphericalDust_base env))
            \<lparr>op_mu := ?mu,
             op_nu := map (\<lambda>r. const_c env / col_wav r * Fin 10000) ?rows,
             op_albedo := map (\<lambda>r. col_c_sca r / col_c_ext r) ?rows,
             op_chi := map col_chi ?rows\<rparr>)"
  have op: "optical_properties self = fold (fill_column ?rows) [0..<100] ?op0"
    by (rule SimpleSphericalDust_Inr(2) [OF assms])
  have mu: "op_mu (optical_properties self) = ?mu"
    by (rule SimpleSphericalDust_albedo(3) [OF assms])
  have mu0: "op_mu ?op0 = ?mu"
    by (simp add: initialize_scattering_matrix_fields)
  have Z: "op_P1 ?op0 = np_zeros2 ?n 100" "op_P2 ?op0 = np_zeros2 ?n 100"
    "op_P3 ?op0 = np_zeros2 ?n 100" "op_P4 ?op0 = np_zeros2 ?n 100"
    by (simp_all add: initialize_scattering_matrix_fields length_linspace)
  have nth: "\<And>i. i < 100 \<Longrightarrow> ?mu ! i = Fin (- 1 + real i * (2 / 99))"
    by (simp add: nth_linspace)
  have P1: "\<And>i j. i < 100 \<Longrightarrow> j < ?n \<Longrightarrow> op_P1 (optical_properties self) ! j ! i =
      hg_P1 (henyey_greenstein (?mu ! i) (col_g (?rows ! j)) (col_p_lin_max (?rows ! j)))"
    using fold_set_column [of "\<lambda>i. map (\<lambda>r. hg_P1 (henyey_greenstein (?mu ! i) (col_g r)
            (col_p_lin_max r))) ?rows" "np_zeros2 ?n 100" 100]
    by (simp add: op fold_fill_column_P(1) mu0 Z np_zeros2_shape)
  have P2: "\<And>i j. i < 100 \<Longrightarrow> j < ?n \<Longrightarrow> op_P2 (optical_properties self) ! j ! i =
      hg_P2 (henyey_greenstein (?mu ! i) (col_g (?rows ! j)) (col_p_lin_max (?rows ! j)))"
    using fold_set_column [of "\<lambda>i. map (\<lambda>r. hg_P2 (henyey_greenstein (?mu ! i) (col_g r)
            (col_p_lin_max r))) ?rows" "np_zeros2 ?n 100" 100]
    by (simp add: op fold_fill_column_P(2) mu0 Z np_zeros2_shape)
  have P3: "\<And>i j. i < 100 \<Longrightarrow> j < ?n \<Longrightarrow> op_P3 (optical_properties self) ! j ! i =
      hg_P3 (henyey_greenstein (?mu ! i) (col_g (?rows ! j)) (col_p_lin_max (?rows ! j)))"
    using fold_set_column [of "\<lambda>i. map (\<lambda>r. hg_P3 (henyey_greenstein (?mu ! i) (col_g r)
            (col_p_lin_max r))) ?rows" "np_zeros2 ?n 100" 100]
    by (simp add: op fold_fill_column_P(3) mu0 Z np_zeros2_shape)
  have P4: "\<And>i j. i < 100 \<Longrightarrow> j < ?n \<Longrightarrow> op_P4 (optical_properties self) ! j ! i = Fin 0"
    using fold_set_column [of "\<lambda>i. map (\<lambda>r. Fin 0) ?rows" "np_zeros2 ?n 100" 100]
    by (simp add: op fold_fill_column_P(4) Z np_zeros2_shape)
  have hg: "\<And>m g p. henyey_greenstein m g p =
      (hg_P1 (henyey_greenstein m g p), hg_P2 (henyey_greenstein m g p),
       hg_P3 (henyey_greenstein m g p), Fin 0)"
    by (simp add: henyey_greenstein_def hg_P1_def hg_P2_def hg_P3_def Let_def)
  have all: "\<forall>i<100. \<forall>j<?n.
          (op_P1 (optical_properties self) ! j ! i, op_P2 (optical_properties self) ! j ! i,
           op_P3 (optical_properties self) ! j ! i, op_P4 (optical_properties self) ! j ! i) =
          henyey_greenstein (op_mu (optical_properties self) ! i)
            (col_g (?rows ! j)) (col_p_lin_max (?rows ! j))"
  proof (intro allI impI)
    fix i j :: nat assume ij: "i < 100" "j < ?n"
    show "(op_P1 (optical_properties self) ! j ! i, op_P2 (optical_properties self) ! j ! i,
           op_P3 (optical_properties self) ! j ! i, op_P4 (optical_properties self) ! j ! i) =
          henyey_greenstein (op_mu (optical_properties self) ! i)
            (col_g (?rows ! j)) (col_p_lin_max (?rows ! j))"
      unfolding mu P1 [OF ij] P2 [OF ij] P3 [OF ij] P4 [OF ij]
      by (rule hg [symmetric])
  qed
  have "length (op_mu (optical_properties self)) = 100"
    by (simp add: mu length_linspace)
  moreover have "\<forall>i<100. op_mu (optical_properties self) ! i = Fin (- 1 + real i * (2 / 99))"
    by (simp add: mu nth)
  moreover have "op_mu (optical_properties self) ! 0 = Fin (- 1)"
    by (simp add: mu nth)
  moreover have "op_mu (optical_properties self) ! 99 = Fin 1"
    by (simp add: mu nth)
  ultimately show ?thesis
    using SimpleSphericalDust_albedo(1,2) [OF assms] all by simp
qed

theorem SimpleSphericalDust_table_witness:
  "SimpleSphericalDust reference_collaborators
      \<lparr>sf_rows =
         [\<lparr>col_wav = Fin 1, col_c_ext = Fin 2, col_c_sca = Fin 1, col_chi = Fin 10,
           col_g = Fin 0, col_p_lin_max = Fin 0\<rparr>,
          \<lparr>col_wav = Fin 2, col_c_ext = Fin 4, col_c_sca = Fin 1, col_chi = Fin 20,
           col_g = Fin (1 / 2), col_p_lin_max = Fin (1 / 2)\<rparr>],
       sf_md5 = ''0cc175b9c0f1b6a831c399e269772661''\<rparr> =
     Inr (projr (SimpleSphericalDust reference_collaborators
      \<lparr>sf_rows =
         [\<lparr>col_wav = Fin 1, col_c_ext = Fin 2, col_c_sca = Fin 1, col_chi = Fin 10,
           col_g = Fin 0, col_p_lin_max = Fin 0\<rparr>,
          \<lparr>col_wav = Fin 2, col_c_ext = Fin 4, col_c_sca = Fin 1, col_chi = Fin 20,
           col_g = Fin (1 / 2), col_p_lin_max = Fin (1 / 2)\<rparr>],
       sf_md5 = ''0cc175b9c0f1b6a831c399e269772661''\<rparr>))
   \<and> op_albedo (optical_properties (projr (SimpleSphericalDust reference_collaborators
      \<lparr>sf_rows =
         [\<lparr>col_wav = Fin 1, col_c_ext = Fin 2, col_c_sca = Fin 1, col_chi = Fin 10,
           col_g = Fin 0, col_p_lin_max = Fin 0\<rparr>,
          \<lparr>col_wav = Fin 2, col_c_ext = Fin 4, col_c_sca = Fin 1, col_chi = Fin 20,
           col_g = Fin (1 / 2), col_p_lin_max = Fin (1 / 2)\<rparr>],
       sf_md5 = ''0cc175b9c0f1b6a831c399e269772661''\<rparr>))) = [Fin (1 / 2), Fin (1 / 4)]
   \<and> op_chi (optical_properties (projr (SimpleSphericalDust reference_collaborators
      \<lparr>sf_rows =
         [\<lparr>col_wav = Fin 1, col_c_ext = Fin 2, col_c_sca = Fin 1, col_chi = Fin 10,
           col_g = Fin 0, col_p_lin_max = Fin 0\<rparr>,
          \<lparr>col_wav = Fin 2, col_c_ext = Fin 4, col_c_sca = Fin 1, col_chi = Fin 20,
           col_g = Fin (1 / 2), col_p_lin_max = Fin (1 / 2)\<rparr>],
       sf_md5 = ''0cc175b9c0f1b6a831c399e269772661''\<rparr>))) = [Fin 10, Fin 20]
   \<and> op_P1 (optical_properties (projr (SimpleSphericalDust reference_collaborators
      \<lparr>sf_rows =
         [\<lparr>col_wav = Fin 1, col_c_ext = Fin 2, col_c_sca = Fin 1, col_chi = Fin 10,
           col_g = Fin 0, col_p_lin_max = Fin 0\<rparr>,
          \<lparr>col_wav = Fin 2, col_c_ext = Fin 4, col_c_sca = Fin 1, col_chi = Fin 20,
           col_g = Fin (1 / 2), col_p_lin_max = Fin (1 / 2)\<rparr>],
       sf_md5 = ''0cc175b9c0f1b6a831c399e269772661''\<rparr>))) ! 0 ! 99 = Fin 1
   \<and> op_P3 (optical_properties (projr (SimpleSphericalDust reference_collaborators
      \<lparr>sf_rows =
         [\<lparr>col_wav = Fin 1, col_c_ext = Fin 2, col_c_sca = Fin 1, col_chi = Fin 10,
           col_g = Fin 0, col_p_lin_max = Fin 0\<rparr>,
          \<lparr>col_wav = Fin 2, col_c_ext = Fin 4, col_c_sca = Fin 1, col_chi = Fin 20,
           col_g = Fin (1 / 2), col_p_lin_max = Fin (1 / 2)\<rparr>],
       sf_md5 = ''0cc175b9c0f1b6a831c399e269772661''\<rparr>))) ! 0 ! 99 = Fin 1"
proof -
  let ?F = "\<lparr>sf_rows =
         [\<lparr>col_wav = Fin 1, col_c_ext = Fin 2, col_c_sca = Fin 1, col_chi = Fin 10,
           col_g = Fin 0, col_p_lin_max = Fin 0\<rparr>,
          \<lparr>col_wav = Fin 2, col_c_ext = Fin 4, col_c_sca = Fin 1, col_chi = Fin 20,
           col_g = Fin (1 / 2), col_p_lin_max = Fin (1 / 2)\<rparr>],
       sf_md5 = ''0cc175b9c0f1b6a831c399e269772661''\<rparr>"
  let ?S = "SimpleSphericalDust reference_collaborators ?F"
  have "\<exists>self. ?S = Inr self"
    by (rule SimpleSphericalDust_returns) simp
  then have h: "?S = Inr (projr ?S)" by auto
  note t = SimpleSphericalDust_table [OF h]
  from t have a: "op_albedo (optical_properties (projr ?S)) = [Fin (1 / 2), Fin (1 / 4)]"
    by (simp add: np_arith)
  from t have c: "op_chi (optical_properties (projr ?S)) = [Fin 10, Fin 20]"
    by simp
  from t have m: "op_mu (optical_properties (projr ?S)) ! 99 = Fin 1" by blast
  from t have "\<forall>i<100. \<forall>j<length (sf_rows ?F).
          (op_P1 (optical_properties (projr ?S)) ! j ! i, op_P2 (optical_properties (projr ?S)) ! j ! i,
           op_P3 (optical_properties (projr ?S)) ! j ! i, op_P4 (optical_properties (projr ?S)) ! j ! i) =
          henyey_greenstein (op_mu (optical_properties (projr ?S)) ! i)
            (col_g (sf_rows ?F ! j)) (col_p_lin_max (sf_rows ?F ! j))"
    by blast
  then have "(op_P1 (optical_properties (projr ?S)) ! 0 ! 99, op_P2 (optical_properties (projr ?S)) ! 0 ! 99,
           op_P3 (optical_properties (projr ?S)) ! 0 ! 99, op_P4 (optical_properties (projr ?S)) ! 0 ! 99) =
          henyey_greenstein (op_mu (optical_properties (projr ?S)) ! 99)
            (col_g (sf_rows ?F ! 0)) (col_p_lin_max (sf_rows ?F ! 0))"
    by simp
  then have p: "op_P1 (optical_properties (projr ?S)) ! 0 ! 99 = Fin 1
      \<and> op_P3 (optical_properties (projr ?S)) ! 0 ! 99 = Fin 1"
    by (simp add: m henyey_greenstein_def np_arith Let_def)
  from h a c p show ?thesis by blast
qed


subsection \<open>The repair of NaN values\<close>

lemma length_mask_fill: "length (mask_fill vs ms r) = length vs"
  by (induction vs ms r rule: mask_fill.induct) (auto split: list.splits)

lemma nth_mask_fill_valid:
  "j < length vs \<Longrightarrow> (j < length ms \<Longrightarrow> \<not> ms ! j) \<Longrightarrow> mask_fill vs ms r ! j = vs ! j"
proof (induction vs ms r arbitrary: j rule: mask_fill.induct)
  case (1 v vs m ms r)
  show ?case
  proof (cases j)
    case 0
    with 1 show ?thesis by (auto split: list.splits)
  next
    case (Suc k)
    with 1 show ?thesis by (auto split: list.splits)
  qed
qed simp_all

lemma mask_assign_Inr:
  assumes "mask_assign vs ms r = Inr vs'"
  shows "length vs' = length vs"
    and "\<And>j. j < length vs \<Longrightarrow> (j < length ms \<Longrightarrow> \<not> ms ! j) \<Longrightarrow> vs' ! j = vs ! j"
  using assms
  by (auto simp: mask_assign_def Let_def length_mask_fill nth_mask_fill_valid
      split: if_splits list.splits)


lemma repair_nan_Inr:
  assumes "repair_nan env q wav vs = Inr (vs', ws)"
  shows "no_nan vs'" and "length vs' = length vs"
    and "\<And>j. j < length vs \<Longrightarrow> \<not> np_isnan (vs ! j) \<Longrightarrow> vs' ! j = vs ! j"
proof -
  show "no_nan vs'"
    using assms
    by (auto simp: repair_nan_def no_nan_def Let_def split: if_splits sum.splits)
  show "length vs' = length vs"
    using assms
    by (auto simp: repair_nan_def Let_def mask_assign_Inr(1) split: if_splits sum.splits)
  show "\<And>j. j < length vs \<Longrightarrow> \<not> np_isnan (vs ! j) \<Longrightarrow> vs' ! j = vs ! j"
    using assms
    by (auto simp: repair_nan_def Let_def mask_assign_Inr(2) split: if_splits sum.splits)
qed



subsection \<open>The repair of the columns\<close>

lemma length_get_column: "length (get_column P i) = length P"
  by (simp add: get_column_def)

lemma repair_column_Inr:
  assumes "repair_column env q wav i P = Inr (P', ws)"
  shows "length P' = length P"
    and "\<And>j. j < length P \<Longrightarrow> length (P' ! j) = length (P ! j)"
    and "\<And>j. j < length P \<Longrightarrow> i < length (P ! j) \<Longrightarrow> \<not> np_isnan (P' ! j ! i)"
    and "\<And>j k. j < length P \<Longrightarrow> \<not> np_isnan (P ! j ! k) \<Longrightarrow> \<not> np_isnan (P' ! j ! k)"
proof -
  from assms obtain col where r: "repair_nan env q wav (get_column P i) = Inr (col, ws)"
    and P': "P' = set_column P i col"
    by (auto simp: repair_column_def split: sum.splits)
  from repair_nan_Inr [OF r] have nn: "no_nan col" and len: "length col = length P"
    and same: "\<And>j. j < length P \<Longrightarrow> \<not> np_isnan (P ! j ! i) \<Longrightarrow> col ! j = P ! j ! i"
    by (simp_all add: length_get_column get_column_def)
  show "length P' = length P" using len by (simp add: P' set_column_def)
  have nth: "\<And>j. j < length P \<Longrightarrow> P' ! j = (P ! j)[i := col ! j]"
    using len by (simp add: P' set_column_def)
  show "\<And>j. j < length P \<Longrightarrow> length (P' ! j) = length (P ! j)"
    by (simp add: nth)
  have cn: "\<And>j. j < length P \<Longrightarrow> \<not> np_isnan (col ! j)"
    using nn len by (auto simp: no_nan_def list_ex_iff)
  show "\<And>j. j < length P \<Longrightarrow> i < length (P ! j) \<Longrightarrow> \<not> np_isnan (P' ! j ! i)"
    using cn by (simp add: nth)
  show "\<And>j k. j < length P \<Longrightarrow> \<not> np_isnan (P ! j ! k) \<Longrightarrow> \<not> np_isnan (P' ! j ! k)"
  proof -
    fix j k assume j: "j < length P" and v: "\<not> np_isnan (P ! j ! k)"
    show "\<not> np_isnan (P' ! j ! k)"
    proof (cases "k = i \<and> i < length (P ! j)")
      case True
      with cn [OF j] j show ?thesis by (simp add: nth)
    next
      case False
      then have "(P ! j)[i := col ! j] ! k = P ! j ! k"
        by (cases "k = i") (simp_all add: list_update_beyond)
      with v j show ?thesis by (simp add: nth)
    qed
  qed
qed

lemma shape_is_nth: "shape_is n m P \<Longrightarrow> j < n \<Longrightarrow> length (P ! j) = m"
  by (simp add: shape_is_def list_all_length)

lemma shape_isI:
  "length P = n \<Longrightarrow> (\<And>j. j < n \<Longrightarrow> length (P ! j) = m) \<Longrightarrow> shape_is n m P"
  by (simp add: shape_is_def list_all_length)

lemma no_nan_get_column:
  "no_nan (get_column P i) \<longleftrightarrow> (\<forall>j<length P. \<not> np_isnan (P ! j ! i))"
  by (simp add: no_nan_def get_column_def list_ex_iff all_set_conv_all_nth)

lemma repair_column_shape:
  assumes "repair_column env q wav i P = Inr (P', ws)" and "shape_is n m P" and "i < m"
  shows "shape_is n m P'" and "no_nan (get_column P' i)"
    and "\<And>k. no_nan (get_column P k) \<Longrightarrow> no_nan (get_column P' k)"
proof -
  from assms(2) have n: "length P = n" and rows: "\<And>j. j < n \<Longrightarrow> length (P ! j) = m"
    by (simp_all add: shape_is_def list_all_length)
  note r = repair_column_Inr [OF assms(1)]
  show "shape_is n m P'"
    using r(1) r(2) n rows by (intro shape_isI) simp_all
  show "no_nan (get_column P' i)"
    using r(1) r(3) n rows assms(3) by (simp add: no_nan_get_column)
  show "\<And>k. no_nan (get_column P k) \<Longrightarrow> no_nan (get_column P' k)"
    using r(1) r(4) by (simp add: no_nan_get_column)
qed

lemma repair_columns_Inr:
  assumes "repair_columns env wav xs (op, ws) = Inr (op', ws')"
    and "shape_is n m (op_P1 op)" and "shape_is n m (op_P2 op)"
    and "shape_is n m (op_P3 op)" and "shape_is n m (op_P4 op)"
    and "\<forall>i \<in> set xs. i < m"
  shows "shape_is n m (op_P1 op') \<and> shape_is n m (op_P2 op')
       \<and> shape_is n m (op_P3 op') \<and> shape_is n m (op_P4 op')
       \<and> op_albedo op' = op_albedo op \<and> op_chi op' = op_chi op
       \<and> op_mu op' = op_mu op \<and> op_nu op' = op_nu op
       \<and> (\<forall>k. (k \<in> set xs \<or> no_nan (get_column (op_P1 op) k)) \<longrightarrow> no_nan (get_column (op_P1 op') k))
       \<and> (\<forall>k. (k \<in> set xs \<or> no_nan (get_column (op_P2 op) k)) \<longrightarrow> no_nan (get_column (op_P2 op') k))
       \<and> (\<forall>k. (k \<in> set xs \<or> no_nan (get_column (op_P3 op) k)) \<longrightarrow> no_nan (get_column (op_P3 op') k))
       \<and> (\<forall>k. (k \<in> set xs \<or> no_nan (get_column (op_P4 op) k)) \<longrightarrow> no_nan (get_column (op_P4 op') k))"
  using assms
proof (induction xs arbitrary: op ws)
  case Nil
  then show ?case by simp
next
  case (Cons i xs)
  from Cons.prems(6) have im: "i < m" and rest: "\<forall>i \<in> set xs. i < m" by simp_all
  from Cons.prems(1) obtain p1 w1 p2 w2 p3 w3 p4 w4 where
    r1: "repair_column env ''P1'' wav i (op_P1 op) = Inr (p1, w1)" and
    r2: "repair_column env ''P2'' wav i (op_P2 op) = Inr (p2, w2)" and
    r3: "repair_column env ''P3'' wav i (op_P3 op) = Inr (p3, w3)" and
    r4: "repair_column env ''P4'' wav i (op_P4 op) = Inr (p4, w4)" and
    rec: "repair_columns env wav xs
            (op\<lparr>op_P1 := p1, op_P2 := p2, op_P3 := p3, op_P4 := p4\<rparr>, ws @ w1 @ w2 @ w3 @ w4)
          = Inr (op', ws')"
    by (auto split: sum.splits)
  let ?op1 = "op\<lparr>op_P1 := p1, op_P2 := p2, op_P3 := p3, op_P4 := p4\<rparr>"
  note s1 = repair_column_shape [OF r1 Cons.prems(2) im]
  note s2 = repair_column_shape [OF r2 Cons.prems(3) im]
  note s3 = repair_column_shape [OF r3 Cons.prems(4) im]
  note s4 = repair_column_shape [OF r4 Cons.prems(5) im]
  have IH: "shape_is n m (op_P1 op') \<and> shape_is n m (op_P2 op')
       \<and> shape_is n m (op_P3 op') \<and> shape_is n m (op_P4 op')
       \<and> op_albedo op' = op_albedo ?op1 \<and> op_chi op' = op_chi ?op1
       \<and> op_mu op' = op_mu ?op1 \<and> op_nu op' = op_nu ?op1
       \<and> (\<forall>k. (k \<in> set xs \<or> no_nan (get_column (op_P1 ?op1) k)) \<longrightarrow> no_nan (get_column (op_P1 op') k))
       \<and> (\<forall>k. (k \<in> set xs \<or> no_nan (get_column (op_P2 ?op1) k)) \<longrightarrow> no_nan (get_column (op_P2 op') k))
       \<and> (\<forall>k. (k \<in> set xs \<or> no_nan (get_column (op_P3 ?op1) k)) \<longrightarrow> no_nan (get_column (op_P3 op') k))
       \<and> (\<forall>k. (k \<in> set xs \<or> no_nan (get_column (op_P4 ?op1) k)) \<longrightarrow> no_nan (get_column (op_P4 op') k))"
    by (rule Cons.IH [OF rec]) (simp_all add: s1(1) s2(1) s3(1) s4(1) rest)
  have c1: "\<And>k. k = i \<or> no_nan (get_column (op_P1 op) k) \<Longrightarrow> no_nan (get_column p1 k)"
    using s1(2) s1(3) by blast
  have c2: "\<And>k. k = i \<or> no_nan (get_column (op_P2 op) k) \<Longrightarrow> no_nan (get_column p2 k)"
    using s2(2) s2(3) by blast
  have c3: "\<And>k. k = i \<or> no_nan (get_column (op_P3 op) k) \<Longrightarrow> no_nan (get_column p3 k)"
    using s3(2) s3(3) by blast
  have c4: "\<And>k. k = i \<or> no_nan (get_column (op_P4 op) k) \<Longrightarrow> no_nan (get_column p4 k)"
    using s4(2) s4(3) by blast
  from IH c1 c2 c3 c4 show ?case by auto
qed

lemma no_nan_matrixI:
  assumes "shape_is n m P" and "\<And>k. k < m \<Longrightarrow> no_nan (get_column P k)"
  shows "no_nan_matrix P"
proof -
  have "\<And>j. j < length P \<Longrightarrow> no_nan (P ! j)"
  proof -
    fix j assume j: "j < length P"
    with assms(1) have len: "length (P ! j) = m" by (simp add: shape_is_def list_all_length)
    have "\<And>k. k < m \<Longrightarrow> \<not> np_isnan (P ! j ! k)"
      using assms(2) j by (simp add: no_nan_get_column)
    with len show "no_nan (P ! j)"
      by (auto simp: no_nan_def list_ex_iff in_set_conv_nth)
  qed
  then show ?thesis by (simp add: no_nan_matrix_def list_all_length)
qed

subsection \<open>Reading the four files of matrix elements\<close>

lemma snd_readline: "snd (readline h) = drop 1 h"
  by (cases h) simp_all

lemma fst_readline: "fst (readline h) = line_at h 0"
  by (simp add: line_at_def)

lemma line_at_drop: "line_at (drop a h) b = line_at h (a + b)"
  by (simp add: line_at_def add.commute)

lemma float_of_line_Inr: "float_of_line l = Inr x \<Longrightarrow> l = [Some x]"
  by (auto simp: float_of_line_def split: list.splits option.splits)

lemma check_wavelength_Inr:
  assumes "check_wavelength name h w = Inr r"
  shows "r = drop 1 h" and "line_at h 0 = [Some w]" and "\<not> np_isnan w"
proof -
  from assms obtain x where x: "float_of_line (line_at h 0) = Inr x" and ne: "\<not> np_ne x w"
    and r: "r = snd (readline h)"
    by (auto simp: check_wavelength_def fst_readline split: sum.splits if_splits)
  from ne have "x = w" "\<not> np_isnan w" by (auto simp: np_ne_def)
  with float_of_line_Inr [OF x] r show "r = drop 1 h" "line_at h 0 = [Some w]" "\<not> np_isnan w"
    by (simp_all add: snd_readline)
qed

lemma check_wavelength_mismatch:
  assumes "float_of_line (line_at h 0) = Inr x" and "np_ne x w"
  shows "check_wavelength name h w = Inl (Exception (''Incorrect wavelength in '' @ name))"
  using assms by (simp add: check_wavelength_def fst_readline)

lemma shape_is_set_elem:
  assumes "shape_is n m P"
  shows "shape_is n m (set_elem P j i v)"
proof (rule shape_isI)
  show "length (set_elem P j i v) = n"
    using assms by (simp add: set_elem_def shape_is_def)
next
  fix k assume k: "k < n"
  with assms have "length (P ! k) = m" "k < length P"
    by (simp_all add: shape_is_def list_all_length)
  then show "length (set_elem P j i v ! k) = m"
    by (cases "k = j") (simp_all add: set_elem_def)
qed

lemma read_elements_Inr:
  assumes "read_elements j xs (h, op) = Inr (h', op')"
    and "shape_is n m (op_P1 op)" and "shape_is n m (op_P2 op)"
    and "shape_is n m (op_P3 op)" and "shape_is n m (op_P4 op)"
  shows "h11 h' = drop (length xs) (h11 h) \<and> h12 h' = drop (length xs) (h12 h)
       \<and> h33 h' = drop (length xs) (h33 h) \<and> h34 h' = drop (length xs) (h34 h)
       \<and> shape_is n m (op_P1 op') \<and> shape_is n m (op_P2 op')
       \<and> shape_is n m (op_P3 op') \<and> shape_is n m (op_P4 op')
       \<and> op_albedo op' = op_albedo op \<and> op_chi op' = op_chi op
       \<and> op_mu op' = op_mu op \<and> op_nu op' = op_nu op"
  using assms
proof (induction xs arbitrary: h op)
  case Nil
  then show ?case by simp
next
  case (Cons i xs)
  from Cons.prems(1) obtain v1 v2 v3 v4 where
    rec: "read_elements j xs
          (\<lparr>h11 = snd (readline (h11 h)), h12 = snd (readline (h12 h)),
            h33 = snd (readline (h33 h)), h34 = snd (readline (h34 h))\<rparr>,
           op\<lparr>op_P1 := set_elem (op_P1 op) j i v1, op_P2 := set_elem (op_P2 op) j i v2,
              op_P3 := set_elem (op_P3 op) j i v3, op_P4 := set_elem (op_P4 op) j i v4\<rparr>)
         = Inr (h', op')"
    by (auto split: sum.splits)
  have "h11 h' = drop (length xs) (snd (readline (h11 h)))
       \<and> h12 h' = drop (length xs) (snd (readline (h12 h)))
       \<and> h33 h' = drop (length xs) (snd (readline (h33 h)))
       \<and> h34 h' = drop (length xs) (snd (readline (h34 h)))
       \<and> shape_is n m (op_P1 op') \<and> shape_is n m (op_P2 op')
       \<and> shape_is n m (op_P3 op') \<and> shape_is n m (op_P4 op')
       \<and> op_albedo op' = op_albedo op \<and> op_chi op' = op_chi op
       \<and> op_mu op' = op_mu op \<and> op_nu op' = op_nu op"
    using Cons.IH [OF rec] Cons.prems(2-5) by (simp add: shape_is_set_elem)
  then show ?case by (simp add: snd_readline)
qed

lemma read_records_Inr:
  assumes "read_records wav n_mu js (h, op) = Inr (h', op')"
    and "shape_is n m (op_P1 op)" and "shape_is n m (op_P2 op)"
    and "shape_is n m (op_P3 op)" and "shape_is n m (op_P4 op)"
  shows "shape_is n m (op_P1 op') \<and> shape_is n m (op_P2 op')
       \<and> shape_is n m (op_P3 op') \<and> shape_is n m (op_P4 op')
       \<and> op_albedo op' = op_albedo op \<and> op_chi op' = op_chi op
       \<and> op_mu op' = op_mu op \<and> op_nu op' = op_nu op
       \<and> (\<forall>k<length js. \<not> np_isnan (wav ! (js ! k))
            \<and> line_at (h11 h) (k * (n_mu + 1)) = [Some (wav ! (js ! k))]
            \<and> line_at (h12 h) (k * (n_mu + 1)) = [Some (wav ! (js ! k))]
            \<and> line_at (h33 h) (k * (n_mu + 1)) = [Some (wav ! (js ! k))]
            \<and> line_at (h34 h) (k * (n_mu + 1)) = [Some (wav ! (js ! k))])"
  using assms
proof (induction js arbitrary: h op)
  case Nil
  then show ?case by simp
next
  case (Cons j js)
  from Cons.prems(1) obtain r11 r12 r33 r34 h1 op1 where
    c11: "check_wavelength ''f11'' (h11 h) (wav ! j) = Inr r11" and
    c12: "check_wavelength ''f12'' (h12 h) (wav ! j) = Inr r12" and
    c33: "check_wavelength ''f33'' (h33 h) (wav ! j) = Inr r33" and
    c34: "check_wavelength ''f34'' (h34 h) (wav ! j) = Inr r34" and
    el: "read_elements j [0..<n_mu] (\<lparr>h11 = r11, h12 = r12, h33 = r33, h34 = r34\<rparr>, op)
           = Inr (h1, op1)" and
    rec: "read_records wav n_mu js (h1, op1) = Inr (h', op')"
    by (auto split: sum.splits)
  note e = read_elements_Inr [OF el Cons.prems(2-5)]
  from e check_wavelength_Inr(1) [OF c11] check_wavelength_Inr(1) [OF c12]
    check_wavelength_Inr(1) [OF c33] check_wavelength_Inr(1) [OF c34]
  have hd: "h11 h1 = drop (n_mu + 1) (h11 h)" "h12 h1 = drop (n_mu + 1) (h12 h)"
    "h33 h1 = drop (n_mu + 1) (h33 h)" "h34 h1 = drop (n_mu + 1) (h34 h)"
    by (simp_all add: add.commute)
  from e have sh: "shape_is n m (op_P1 op1)" "shape_is n m (op_P2 op1)"
    "shape_is n m (op_P3 op1)" "shape_is n m (op_P4 op1)" by simp_all
  note IH = Cons.IH [OF rec sh]
  have later: "\<And>k. k < length js \<Longrightarrow> \<not> np_isnan (wav ! (js ! k))
            \<and> line_at (h11 h) (Suc k * (n_mu + 1)) = [Some (wav ! (js ! k))]
            \<and> line_at (h12 h) (Suc k * (n_mu + 1)) = [Some (wav ! (js ! k))]
            \<and> line_at (h33 h) (Suc k * (n_mu + 1)) = [Some (wav ! (js ! k))]
            \<and> line_at (h34 h) (Suc k * (n_mu + 1)) = [Some (wav ! (js ! k))]"
  proof -
    fix k assume k: "k < length js"
    have eq: "n_mu + 1 + k * (n_mu + 1) = Suc k * (n_mu + 1)" by simp
    from IH k have "\<not> np_isnan (wav ! (js ! k))
            \<and> line_at (h11 h1) (k * (n_mu + 1)) = [Some (wav ! (js ! k))]
            \<and> line_at (h12 h1) (k * (n_mu + 1)) = [Some (wav ! (js ! k))]
            \<and> line_at (h33 h1) (k * (n_mu + 1)) = [Some (wav ! (js ! k))]
            \<and> line_at (h34 h1) (k * (n_mu + 1)) = [Some (wav ! (js ! k))]"
      by blast
    then show "\<not> np_isnan (wav ! (js ! k))
            \<and> line_at (h11 h) (Suc k * (n_mu + 1)) = [Some (wav ! (js ! k))]
            \<and> line_at (h12 h) (Suc k * (n_mu + 1)) = [Some (wav ! (js ! k))]
            \<and> line_at (h33 h) (Suc k * (n_mu + 1)) = [Some (wav ! (js ! k))]
            \<and> line_at (h34 h) (Suc k * (n_mu + 1)) = [Some (wav ! (js ! k))]"
      unfolding hd line_at_drop eq .
  qed
  have first: "\<not> np_isnan (wav ! j)
            \<and> line_at (h11 h) 0 = [Some (wav ! j)] \<and> line_at (h12 h) 0 = [Some (wav ! j)]
            \<and> line_at (h33 h) 0 = [Some (wav ! j)] \<and> line_at (h34 h) 0 = [Some (wav ! j)]"
    using check_wavelength_Inr(2,3) [OF c11] check_wavelength_Inr(2) [OF c12]
      check_wavelength_Inr(2) [OF c33] check_wavelength_Inr(2) [OF c34] by simp
  have headers: "\<forall>k<length (j # js). \<not> np_isnan (wav ! ((j # js) ! k))
            \<and> line_at (h11 h) (k * (n_mu + 1)) = [Some (wav ! ((j # js) ! k))]
            \<and> line_at (h12 h) (k * (n_mu + 1)) = [Some (wav ! ((j # js) ! k))]
            \<and> line_at (h33 h) (k * (n_mu + 1)) = [Some (wav ! ((j # js) ! k))]
            \<and> line_at (h34 h) (k * (n_mu + 1)) = [Some (wav ! ((j # js) ! k))]"
  proof (intro allI impI)
    fix k assume k: "k < length (j # js)"
    show "\<not> np_isnan (wav ! ((j # js) ! k))
            \<and> line_at (h11 h) (k * (n_mu + 1)) = [Some (wav ! ((j # js) ! k))]
            \<and> line_at (h12 h) (k * (n_mu + 1)) = [Some (wav ! ((j # js) ! k))]
            \<and> line_at (h33 h) (k * (n_mu + 1)) = [Some (wav ! ((j # js) ! k))]
            \<and> line_at (h34 h) (k * (n_mu + 1)) = [Some (wav ! ((j # js) ! k))]"
    proof (cases k)
      case 0
      with first show ?thesis by simp
    next
      case (Suc k')
      with k have "k' < length js" by simp
      from later [OF this] Suc show ?thesis by simp
    qed
  qed
  from IH e have "shape_is n m (op_P1 op') \<and> shape_is n m (op_P2 op')
       \<and> shape_is n m (op_P3 op') \<and> shape_is n m (op_P4 op')
       \<and> op_albedo op' = op_albedo op \<and> op_chi op' = op_chi op
       \<and> op_mu op' = op_mu op \<and> op_nu op' = op_nu op"
    by simp
  with headers show ?case by blast
qed

subsection \<open>The loader of the output of the Mie code\<close>

lemma repair_columns_warnings:
  "repair_columns env wav xs (op, ws) = Inr (op', ws') \<Longrightarrow> \<exists>extra. ws' = ws @ extra"
proof (induction xs arbitrary: op ws)
  case Nil
  then show ?case by simp
next
  case (Cons i xs)
  from Cons.prems obtain op1 ws1 where
    rec: "repair_columns env wav xs (op1, ws @ ws1) = Inr (op', ws')"
    by (auto split: sum.splits)
  from Cons.IH [OF rec] show ?case by auto
qed

lemma length_broadcast_div:
  "broadcast_div a b = Inr r \<Longrightarrow> length r = length b"
  by (auto simp: broadcast_div_def split: list.splits if_splits)

lemma shape_is_np_zeros2: "shape_is n m (np_zeros2 n m)"
  by (simp add: shape_is_def np_zeros2_def list_all_length)

text \<open>The steps of a successful run of the constructor.\<close>

lemma MieXDust_Inr:
  assumes "MieXDust env model = Inr (self, ws)"
  obtains chi0 chi1 w1 albedo1 w2 mu_arr h op2 op3 where
    "2 \<le> length (alb model)"
    "0 \<le> int (length (f11 model)) div int (length (alb model)) - 1"
    "broadcast_div (k_abs model) (map (\<lambda>a. Fin 1 - a) (map snd (alb model))) = Inr chi0"
    "repair_nan env ''chi'' (map fst (alb model)) chi0 = Inr (chi1, w1)"
    "repair_nan env ''albedo'' (map fst (alb model)) (map snd (alb model)) = Inr (albedo1, w2)"
    "read_records (map fst (alb model))
        (nat (int (length (f11 model)) div int (length (alb model)) - 1))
        [0..<length (alb model)]
        (\<lparr>h11 = snd (readline (f11 model)), h12 = snd (readline (f12 model)),
          h33 = snd (readline (f33 model)), h34 = snd (readline (f34 model))\<rparr>,
         (initialize_scattering_matrix
            ((optical_properties (SphericalDust_base env))
               \<lparr>op_albedo := albedo1, op_chi := chi1,
                op_nu := map (\<lambda>w. const_c env / w * Fin 10000) (map fst (alb model)),
                op_mu := replicate
                  (nat (int (length (f11 model)) div int (length (alb model)) - 1)) (Fin 0)\<rparr>))
           \<lparr>op_mu := mu_arr\<rparr>) = Inr (h, op2)"
    "repair_columns env (map fst (alb model))
        [0..<nat (int (length (f11 model)) div int (length (alb model)) - 1)] (op2, w1 @ w2)
       = Inr (op3, ws)"
    "optical_properties self = op3"
proof -
  from assms have "\<not> length (alb model) < 2"
    and "\<not> int (length (f11 model)) div int (length (alb model)) - 1 < 0"
    by (auto simp: MieXDust_def Let_def split: if_splits sum.splits)
  then have a: "2 \<le> length (alb model)"
    "0 \<le> int (length (f11 model)) div int (length (alb model)) - 1" by simp_all
  from assms this obtain chi0 chi1 w1 albedo1 w2 mu_arr h op2 op3 where
    "broadcast_div (k_abs model) (map (\<lambda>a. Fin 1 - a) (map snd (alb model))) = Inr chi0"
    "repair_nan env ''chi'' (map fst (alb model)) chi0 = Inr (chi1, w1)"
    "repair_nan env ''albedo'' (map fst (alb model)) (map snd (alb model)) = Inr (albedo1, w2)"
    "read_records (map fst (alb model))
        (nat (int (length (f11 model)) div int (length (alb model)) - 1))
        [0..<length (alb model)]
        (\<lparr>h11 = snd (readline (f11 model)), h12 = snd (readline (f12 model)),
          h33 = snd (readline (f33 model)), h34 = snd (readline (f34 model))\<rparr>,
         (initialize_scattering_matrix
            ((optical_properties (SphericalDust_base env))
               \<lparr>op_albedo := albedo1, op_chi := chi1,
                op_nu := map (\<lambda>w. const_c env / w * Fin 10000) (map fst (alb model)),
                op_mu := replicate
                  (nat (int (length (f11 model)) div int (length (alb model)) - 1)) (Fin 0)\<rparr>))
           \<lparr>op_mu := mu_arr\<rparr>) = Inr (h, op2)"
    "repair_columns env (map fst (alb model))
        [0..<nat (int (length (f11 model)) div int (length (alb model)) - 1)] (op2, w1 @ w2)
       = Inr (op3, ws)"
    "optical_properties self = op3"
    by (auto simp: MieXDust_def Let_def split: if_splits sum.splits)
  with a that show thesis by blast
qed

text \<open>What a successful run establishes.\<close>

lemma MieXDust_table:
  assumes "MieXDust env model = Inr (self, ws)"
  shows "\<exists>chi0 w1 w2.
           broadcast_div (k_abs model) (map (\<lambda>a. Fin 1 - a) (map snd (alb model))) = Inr chi0
         \<and> repair_nan env ''chi'' (map fst (alb model)) chi0
              = Inr (op_chi (optical_properties self), w1)
         \<and> repair_nan env ''albedo'' (map fst (alb model)) (map snd (alb model))
              = Inr (op_albedo (optical_properties self), w2)
         \<and> set w1 \<union> set w2 \<subseteq> set ws"
    and "length (op_chi (optical_properties self)) = length (alb model)"
    and "length (op_albedo (optical_properties self)) = length (alb model)"
    and "length (op_nu (optical_properties self)) = length (alb model)"
    and "no_nan_matrix (op_P1 (optical_properties self))"
    and "no_nan_matrix (op_P2 (optical_properties self))"
    and "no_nan_matrix (op_P3 (optical_properties self))"
    and "no_nan_matrix (op_P4 (optical_properties self))"
    and "\<forall>j<length (alb model). \<not> np_isnan (fst (alb model ! j))
          \<and> line_at (f11 model)
              (1 + j * (nat (int (length (f11 model)) div int (length (alb model)) - 1) + 1))
              = [Some (fst (alb model ! j))]
          \<and> line_at (f12 model)
              (1 + j * (nat (int (length (f11 model)) div int (length (alb model)) - 1) + 1))
              = [Some (fst (alb model ! j))]
          \<and> line_at (f33 model)
              (1 + j * (nat (int (length (f11 model)) div int (length (alb model)) - 1) + 1))
              = [Some (fst (alb model ! j))]
          \<and> line_at (f34 model)
              (1 + j * (nat (int (length (f11 model)) div int (length (alb model)) - 1) + 1))
              = [Some (fst (alb model ! j))]"
proof -
  let ?n = "length (alb model)"
  let ?m = "nat (int (length (f11 model)) div int ?n - 1)"
  let ?wav = "map fst (alb model)"
  from assms obtain chi0 chi1 w1 albedo1 w2 mu_arr h op2 op3 where
    bd: "broadcast_div (k_abs model) (map (\<lambda>a. Fin 1 - a) (map snd (alb model))) = Inr chi0" and
    rc: "repair_nan env ''chi'' ?wav chi0 = Inr (chi1, w1)" and
    ra: "repair_nan env ''albedo'' ?wav (map snd (alb model)) = Inr (albedo1, w2)" and
    rr: "read_records ?wav ?m [0..<?n]
        (\<lparr>h11 = snd (readline (f11 model)), h12 = snd (readline (f12 model)),
          h33 = snd (readline (f33 model)), h34 = snd (readline (f34 model))\<rparr>,
         (initialize_scattering_matrix
            ((optical_properties (SphericalDust_base env))
               \<lparr>op_albedo := albedo1, op_chi := chi1,
                op_nu := map (\<lambda>w. const_c env / w * Fin 10000) ?wav,
                op_mu := replicate ?m (Fin 0)\<rparr>))
           \<lparr>op_mu := mu_arr\<rparr>) = Inr (h, op2)" and
    cols: "repair_columns env ?wav [0..<?m] (op2, w1 @ w2) = Inr (op3, ws)" and
    self: "optical_properties self = op3"
    by (rule MieXDust_Inr)
  let ?op1 = "(initialize_scattering_matrix
            ((optical_properties (SphericalDust_base env))
               \<lparr>op_albedo := albedo1, op_chi := chi1,
                op_nu := map (\<lambda>w. const_c env / w * Fin 10000) ?wav,
                op_mu := replicate ?m (Fin 0)\<rparr>))
           \<lparr>op_mu := mu_arr\<rparr>"
  have sh1: "shape_is ?n ?m (op_P1 ?op1)" "shape_is ?n ?m (op_P2 ?op1)"
    "shape_is ?n ?m (op_P3 ?op1)" "shape_is ?n ?m (op_P4 ?op1)"
    by (simp_all add: initialize_scattering_matrix_def Let_def shape_is_np_zeros2)
  have f1: "op_albedo ?op1 = albedo1" "op_chi ?op1 = chi1"
    "op_nu ?op1 = map (\<lambda>w. const_c env / w * Fin 10000) ?wav"
    by (simp_all add: initialize_scattering_matrix_def Let_def)
  note R = read_records_Inr [OF rr sh1]
  from R have sh2: "shape_is ?n ?m (op_P1 op2)" "shape_is ?n ?m (op_P2 op2)"
    "shape_is ?n ?m (op_P3 op2)" "shape_is ?n ?m (op_P4 op2)" by simp_all
  have "\<forall>i \<in> set [0..<?m]. i < ?m" by simp
  note C = repair_columns_Inr [OF cols sh2 this]
  from C R f1 self have alb: "op_albedo (optical_properties self) = albedo1"
    and chi: "op_chi (optical_properties self) = chi1"
    and nu: "op_nu (optical_properties self) = map (\<lambda>w. const_c env / w * Fin 10000) ?wav"
    by simp_all
  from repair_columns_warnings [OF cols] have "set w1 \<union> set w2 \<subseteq> set ws" by auto
  with bd rc ra alb chi show "\<exists>chi0 w1 w2.
           broadcast_div (k_abs model) (map (\<lambda>a. Fin 1 - a) (map snd (alb model))) = Inr chi0
         \<and> repair_nan env ''chi'' (map fst (alb model)) chi0
              = Inr (op_chi (optical_properties self), w1)
         \<and> repair_nan env ''albedo'' (map fst (alb model)) (map snd (alb model))
              = Inr (op_albedo (optical_properties self), w2)
         \<and> set w1 \<union> set w2 \<subseteq> set ws"
    by blast
  show "length (op_chi (optical_properties self)) = length (alb model)"
    using repair_nan_Inr(2) [OF rc] length_broadcast_div [OF bd] by (simp add: chi)
  show "length (op_albedo (optical_properties self)) = length (alb model)"
    using repair_nan_Inr(2) [OF ra] by (simp add: alb)
  show "length (op_nu (optical_properties self)) = length (alb model)"
    by (simp add: nu)
  from C self have shP: "shape_is ?n ?m (op_P1 (optical_properties self))"
    "shape_is ?n ?m (op_P2 (optical_properties self))"
    "shape_is ?n ?m (op_P3 (optical_properties self))"
    "shape_is ?n ?m (op_P4 (optical_properties self))" by simp_all
  from C self have cl: "\<And>k. k < ?m \<Longrightarrow> no_nan (get_column (op_P1 (optical_properties self)) k)"
    "\<And>k. k < ?m \<Longrightarrow> no_nan (get_column (op_P2 (optical_properties self)) k)"
    "\<And>k. k < ?m \<Longrightarrow> no_nan (get_column (op_P3 (optical_properties self)) k)"
    "\<And>k. k < ?m \<Longrightarrow> no_nan (get_column (op_P4 (optical_properties self)) k)"
    by simp_all
  show "no_nan_matrix (op_P1 (optical_properties self))"
    by (rule no_nan_matrixI [OF shP(1) cl(1)])
  show "no_nan_matrix (op_P2 (optical_properties self))"
    by (rule no_nan_matrixI [OF shP(2) cl(2)])
  show "no_nan_matrix (op_P3 (optical_properties self))"
    by (rule no_nan_matrixI [OF shP(3) cl(3)])
  show "no_nan_matrix (op_P4 (optical_properties self))"
    by (rule no_nan_matrixI [OF shP(4) cl(4)])
  from R have hdr: "\<And>k. k < ?n \<Longrightarrow> \<not> np_isnan (?wav ! k)
            \<and> line_at (snd (readline (f11 model))) (k * (?m + 1)) = [Some (?wav ! k)]
            \<and> line_at (snd (readline (f12 model))) (k * (?m + 1)) = [Some (?wav ! k)]
            \<and> line_at (snd (readline (f33 model))) (k * (?m + 1)) = [Some (?wav ! k)]
            \<and> line_at (snd (readline (f34 model))) (k * (?m + 1)) = [Some (?wav ! k)]"
    by simp
  show "\<forall>j<?n. \<not> np_isnan (fst (alb model ! j))
          \<and> line_at (f11 model) (1 + j * (?m + 1)) = [Some (fst (alb model ! j))]
          \<and> line_at (f12 model) (1 + j * (?m + 1)) = [Some (fst (alb model ! j))]
          \<and> line_at (f33 model) (1 + j * (?m + 1)) = [Some (fst (alb model ! j))]
          \<and> line_at (f34 model) (1 + j * (?m + 1)) = [Some (fst (alb model ! j))]"
  proof (intro allI impI)
    fix j assume j: "j < ?n"
    from hdr [OF j] j
    show "\<not> np_isnan (fst (alb model ! j))
          \<and> line_at (f11 model) (1 + j * (?m + 1)) = [Some (fst (alb model ! j))]
          \<and> line_at (f12 model) (1 + j * (?m + 1)) = [Some (fst (alb model ! j))]
          \<and> line_at (f33 model) (1 + j * (?m + 1)) = [Some (fst (alb model ! j))]
          \<and> line_at (f34 model) (1 + j * (?m + 1)) = [Some (fst (alb model ! j))]"
      unfolding snd_readline line_at_drop by simp
  qed
qed

lemmas miex_eval =
  MieXDust_def Let_def broadcast_div_def repair_nan_def select_def mask_assign_def
  reference_collaborators_def np_arith initialize_scattering_matrix_def np_zeros2_def
  float_of_field_def float_of_line_def check_wavelength_def np_ne_def set_elem_def
  repair_column_def get_column_def set_column_def SphericalDust_base_def
  set_sublimation_specific_energy_def OpticalProperties_new_def example_miex_model_def
  upt_conv_Cons numeral_2_eq_2

lemma example_miex_model_loads:
  "MieXDust reference_collaborators example_miex_model =
     Inr ((SphericalDust_base reference_collaborators)
            \<lparr>optical_properties :=
               \<lparr>op_nu = [Fin 299792458000000, Fin 149896229000000],
                op_mu = [Fin 1, Fin (- 1)],
                op_albedo = [Fin (1 / 2), Fin (1 / 2)],
                op_chi = [Fin 2, Fin 2],
                op_P1 = [[Fin 3, Fin 5], [Fin 4, Fin 5]],
                op_P2 = [[Fin 0, Fin 0], [Fin 0, Fin 0]],
                op_P3 = [[Fin 3, Fin 3], [Fin 4, Fin 5]],
                op_P4 = [[Fin 0, Fin 0], [Fin 0, Fin 0]]\<rparr>\<rparr>,
          [''NaN values found inside MieX chi file - interpolating'',
           ''NaN values found inside MieX albedo file - interpolating'',
           ''NaN values found inside MieX P1 file - interpolating''])"
  by (simp add: miex_eval)


text \<open>
  Claim C6.  When the constructor of \<open>MieXDust\<close> returns a model, then for every
  wavelength index \<open>j\<close> the wavelength \<open>wav[j]\<close> is a number and the header of
  record \<open>j\<close> in each of the four files (line \<open>1 + j (n_mu + 1)\<close>, after the title
  line and \<open>j\<close> records of \<open>n_mu + 1\<close> lines) consists of that number alone.  A header
  that is a number different from the wavelength makes the check of its file raise
  "Incorrect wavelength", which ends the constructor without a model.
\<close>

theorem MieXDust_checks_wavelengths:
  "(MieXDust env model = Inr (self, ws) \<longrightarrow>
      (\<forall>j<length (alb model). \<not> np_isnan (fst (alb model ! j))
          \<and> line_at (f11 model)
              (1 + j * (nat (int (length (f11 model)) div int (length (alb model)) - 1) + 1))
              = [Some (fst (alb model ! j))]
          \<and> line_at (f12 model)
              (1 + j * (nat (int (length (f11 model)) div int (length (alb model)) - 1) + 1))
              = [Some (fst (alb model ! j))]
          \<and> line_at (f33 model)
              (1 + j * (nat (int (length (f11 model)) div int (length (alb model)) - 1) + 1))
              = [Some (fst (alb model ! j))]
          \<and> line_at (f34 model)
              (1 + j * (nat (int (length (f11 model)) div int (length (alb model)) - 1) + 1))
              = [Some (fst (alb model ! j))]))
   \<and> (float_of_line (line_at h 0) = Inr x \<and> np_ne x w \<longrightarrow>
        check_wavelength name h w = Inl (Exception (''Incorrect wavelength in '' @ name)))"
proof (intro conjI impI)
  assume a: "MieXDust env model = Inr (self, ws)"
  show "\<forall>j<length (alb model). \<not> np_isnan (fst (alb model ! j))
          \<and> line_at (f11 model)
              (1 + j * (nat (int (length (f11 model)) div int (length (alb model)) - 1) + 1))
              = [Some (fst (alb model ! j))]
          \<and> line_at (f12 model)
              (1 + j * (nat (int (length (f11 model)) div int (length (alb model)) - 1) + 1))
              = [Some (fst (alb model ! j))]
          \<and> line_at (f33 model)
              (1 + j * (nat (int (length (f11 model)) div int (length (alb model)) - 1) + 1))
              = [Some (fst (alb model ! j))]
          \<and> line_at (f34 model)
              (1 + j * (nat (int (length (f11 model)) div int (length (alb model)) - 1) + 1))
              = [Some (fst (alb model ! j))]"
    by (rule MieXDust_table(9) [OF a])
next
  assume "float_of_line (line_at h 0) = Inr x \<and> np_ne x w"
  then have "float_of_line (line_at h 0) = Inr x" and "np_ne x w" by blast+
  then show "check_wavelength name h w = Inl (Exception (''Incorrect wavelength in '' @ name))"
    by (rule check_wavelength_mismatch)
qed



theorem MieXDust_checks_wavelengths_witness:
  "MieXDust reference_collaborators example_miex_model =
     Inr (fst (projr (MieXDust reference_collaborators example_miex_model)),
          snd (projr (MieXDust reference_collaborators example_miex_model)))
   \<and> line_at (f11 example_miex_model) 1 = [Some (Fin 1)]
   \<and> line_at (f12 example_miex_model) 1 = [Some (Fin 1)]
   \<and> line_at (f33 example_miex_model) 4 = [Some (Fin 2)]
   \<and> line_at (f34 example_miex_model) 4 = [Some (Fin 2)]
   \<and> float_of_line (line_at [[Some (Fin 3)], [Some (Fin 0), Some (Fin 1)]] 0) = Inr (Fin 3)
   \<and> np_ne (Fin 3) (Fin 1)
   \<and> check_wavelength ''f12'' [[Some (Fin 3)], [Some (Fin 0), Some (Fin 1)]] (Fin 1) =
        Inl (Exception ''Incorrect wavelength in f12'')"
  using MieXDust_checks_wavelengths
    [of reference_collaborators example_miex_model
        "fst (projr (MieXDust reference_collaborators example_miex_model))"
        "snd (projr (MieXDust reference_collaborators example_miex_model))"
        "[[Some (Fin 3)], [Some (Fin 0), Some (Fin 1)]]" "Fin 3" "Fin 1" "''f12''"]
  by (simp add: example_miex_model_loads)
     (simp add: example_miex_model_def line_at_def float_of_line_def np_ne_def
        check_wavelength_def)


end
